theory Spec2Isabelle
  imports Complex_Main "HOL-Library.AList"
begin

section \<open>Common conventions\<close>

text \<open>
  Money, prices and sizes are exact rationals (\<open>rat\<close>): Python's \<open>Decimal\<close> in
  \<open>hft_system\<close> and the floats of \<open>hft-trading-system\<close> are both read as exact
  numbers, except in the two fat-finger checks and in the tick record, where the rounding of
  the arithmetic is written out (next section). Timestamps are seconds since the epoch. A Python \<open>dict\<close> is an association list
  with distinct keys in insertion order (\<open>AList.update\<close> overwrites in place or appends,
  \<open>AList.delete\<close> removes the key). Exceptions are values of \<open>py_error\<close> on the left of
  a sum.
\<close>

type_synonym decimal = rat
type_synonym timestamp = rat

datatype py_error =
    KeyError | ZeroDivisionError | ValueError | IndexError | TypeError | InvalidOperation
  | StructError

datatype Side = BUY | SELL

section \<open>Python floats and Decimals, where rounding decides\<close>

text \<open>
  \<open>fl\<close> rounds a rational to the nearest double: 53-bit significand, ties to even, and
  below \<open>2^-1022\<close> the fixed spacing \<open>2^-1074\<close> of the subnormal numbers.
  \<open>binary_exponent x\<close> is the \<open>e\<close> with \<open>2^e \<le> x < 2^(e+1)\<close>.
\<close>

definition round_half_even :: "rat \<Rightarrow> int" where
  "round_half_even q =
     (let f = \<lfloor>q\<rfloor>; d = q - of_int f
      in if d < 1 / 2 then f else if d > 1 / 2 then f + 1 else if even f then f else f + 1)"

function binary_exponent :: "rat \<Rightarrow> int" where
  "binary_exponent x =
     (if x \<le> 0 then 0
      else if x \<ge> 2 then binary_exponent (x / 2) + 1
      else if x < 1 then binary_exponent (x * 2) - 1
      else 0)"
  by pat_completeness auto
termination
proof (relation "measure (\<lambda>x. nat (2 * \<lceil>1 / x\<rceil> + \<lfloor>x\<rfloor>))", goal_cases)
  case 1
  show ?case by simp
next
  case (2 x)
  then have x: "x \<ge> 2" by simp
  have c1: "\<lceil>1 / x\<rceil> = 1" using x by (simp add: ceiling_eq_iff)
  have c2: "\<lceil>1 / (x / 2)\<rceil> = 1" using x by (simp add: ceiling_eq_iff)
  have "x / 2 \<le> x - 1" using x by simp
  then have "\<lfloor>x / 2\<rfloor> \<le> \<lfloor>x - 1\<rfloor>" by (rule floor_mono)
  then have lt: "\<lfloor>x / 2\<rfloor> < \<lfloor>x\<rfloor>" by simp
  have "(1::rat) \<le> x / 2" using x by simp
  then have ge: "1 \<le> \<lfloor>x / 2\<rfloor>" by (simp only: le_floor_iff of_int_1)
  have "nat (2 * \<lceil>1 / (x / 2)\<rceil> + \<lfloor>x / 2\<rfloor>) < nat (2 * \<lceil>1 / x\<rceil> + \<lfloor>x\<rfloor>)"
    unfolding c1 c2 using lt ge by linarith
  then show ?case by simp
next
  case (3 x)
  then have x: "0 < x" "x < 1" by simp_all
  have f0: "\<lfloor>x\<rfloor> = 0" using x by (simp add: floor_eq_iff)
  have "x * 2 < 2" using x by simp
  then have f1: "\<lfloor>x * 2\<rfloor> < 2" by (simp only: floor_less_iff of_int_numeral)
  have "0 \<le> x * 2" using x by simp
  then have f1': "0 \<le> \<lfloor>x * 2\<rfloor>" by (simp only: zero_le_floor)
  have y: "1 / x > 1" using x by simp
  then have c2: "2 \<le> \<lceil>1 / x\<rceil>" by (simp add: le_ceiling_iff)
  have "1 / (x * 2) = (1 / x) / 2" by simp
  also have "\<dots> \<le> of_int \<lceil>1 / x\<rceil> / 2" by (simp add: divide_right_mono)
  also have "\<dots> \<le> of_int (\<lceil>1 / x\<rceil> - 1)" using c2 by simp
  finally have c3: "\<lceil>1 / (x * 2)\<rceil> \<le> \<lceil>1 / x\<rceil> - 1" by (simp only: ceiling_le_iff)
  have "0 < 1 / (x * 2)" using x by simp
  then have c4: "1 \<le> \<lceil>1 / (x * 2)\<rceil>" by (simp add: le_ceiling_iff)
  have "nat (2 * \<lceil>1 / (x * 2)\<rceil> + \<lfloor>x * 2\<rfloor>) < nat (2 * \<lceil>1 / x\<rceil> + \<lfloor>x\<rfloor>)"
    unfolding f0 using f1 f1' c2 c3 c4 by linarith
  then show ?case by simp
qed

definition pow2 :: "int \<Rightarrow> rat" where
  "pow2 e = (if e \<ge> 0 then 2 ^ nat e else 1 / 2 ^ nat (- e))"

definition fl :: "rat \<Rightarrow> rat" where
  "fl x =
     (if x = 0 then 0
      else
        (let a = \<bar>x\<bar>; ulp = pow2 (max (binary_exponent a) (- 1022) - 52)
         in sgn x * of_int (round_half_even (a / ulp)) * ulp))"

declare binary_exponent.simps [simp del]

text \<open>
  A float operation on finite doubles returns the double nearest to the exact result, or an
  infinity when that rounding lies beyond the largest double; so the result of an operation
  is a \<open>pyfloat\<close>, and the operands are finite doubles given by their exact values. The
  operations are subtraction, \<open>abs\<close>, division by a non-zero double and \<open>>\<close>.
\<close>

definition max_float :: rat where
  "max_float = (2 ^ 53 - 1) * 2 ^ 971"

datatype pyfloat = Finite rat | PosInf | NegInf

definition double_of :: "rat \<Rightarrow> pyfloat" where
  "double_of x =
     (let y = fl x
      in if y > max_float then PosInf else if y < - max_float then NegInf else Finite y)"

definition float_sub :: "rat \<Rightarrow> rat \<Rightarrow> pyfloat" where
  "float_sub a b = double_of (a - b)"

definition float_abs :: "pyfloat \<Rightarrow> pyfloat" where
  "float_abs x = (case x of Finite a \<Rightarrow> Finite \<bar>a\<bar> | _ \<Rightarrow> PosInf)"

definition float_truediv :: "pyfloat \<Rightarrow> rat \<Rightarrow> pyfloat" where
  "float_truediv x b =
     (case x of
        Finite a \<Rightarrow> double_of (a / b)
      | PosInf \<Rightarrow> if b > 0 then PosInf else NegInf
      | NegInf \<Rightarrow> if b > 0 then NegInf else PosInf)"

definition float_gt :: "pyfloat \<Rightarrow> rat \<Rightarrow> bool" where
  "float_gt x b = (case x of Finite a \<Rightarrow> a > b | PosInf \<Rightarrow> True | NegInf \<Rightarrow> False)"

text \<open>
  \<open>Decimal\<close> arithmetic in the default context rounds every result to 28 significant
  digits, half to even: \<open>decimal_round\<close>, with \<open>decimal_exponent x\<close> the \<open>e\<close> with
  \<open>10^e \<le> x < 10^(e+1)\<close>. The exponent limits of the context (magnitudes from
  \<open>10^999999\<close> up or below \<open>10^-999999\<close>) are not modelled.
\<close>

function decimal_exponent :: "rat \<Rightarrow> int" where
  "decimal_exponent x =
     (if x \<le> 0 then 0
      else if x \<ge> 10 then decimal_exponent (x / 10) + 1
      else if x < 1 then decimal_exponent (x * 10) - 1
      else 0)"
  by pat_completeness auto
termination
proof (relation "measure (\<lambda>x. nat (10 * \<lceil>1 / x\<rceil> + \<lfloor>x\<rfloor>))", goal_cases)
  case 1
  show ?case by simp
next
  case (2 x)
  then have x: "x \<ge> 10" by simp
  have c1: "\<lceil>1 / x\<rceil> = 1" using x by (simp add: ceiling_eq_iff)
  have c2: "\<lceil>1 / (x / 10)\<rceil> = 1" using x by (simp add: ceiling_eq_iff)
  have "x / 10 \<le> x - 1" using x by simp
  then have "\<lfloor>x / 10\<rfloor> \<le> \<lfloor>x - 1\<rfloor>" by (rule floor_mono)
  then have lt: "\<lfloor>x / 10\<rfloor> < \<lfloor>x\<rfloor>" by simp
  have "(1::rat) \<le> x / 10" using x by simp
  then have ge: "1 \<le> \<lfloor>x / 10\<rfloor>" by (simp only: le_floor_iff of_int_1)
  have "nat (10 * \<lceil>1 / (x / 10)\<rceil> + \<lfloor>x / 10\<rfloor>) < nat (10 * \<lceil>1 / x\<rceil> + \<lfloor>x\<rfloor>)"
    unfolding c1 c2 using lt ge by linarith
  then show ?case by simp
next
  case (3 x)
  then have x: "0 < x" "x < 1" by simp_all
  have f0: "\<lfloor>x\<rfloor> = 0" using x by (simp add: floor_eq_iff)
  have "x * 10 < 10" using x by simp
  then have f1: "\<lfloor>x * 10\<rfloor> < 10" by (simp only: floor_less_iff of_int_numeral)
  have "0 \<le> x * 10" using x by simp
  then have f1': "0 \<le> \<lfloor>x * 10\<rfloor>" by (simp only: zero_le_floor)
  have y: "1 / x > 1" using x by simp
  then have c2: "2 \<le> \<lceil>1 / x\<rceil>" by (simp add: le_ceiling_iff)
  have "0 < 1 / (x * 10)" using x by simp
  then have c4: "1 \<le> \<lceil>1 / (x * 10)\<rceil>" by (simp add: le_ceiling_iff)
  have "1 / (x * 10) = (1 / x) / 10" by simp
  also have "\<dots> \<le> of_int \<lceil>1 / x\<rceil> / 10" by (simp add: divide_right_mono)
  finally have b: "1 / (x * 10) \<le> of_int \<lceil>1 / x\<rceil> / 10" .
  have "of_int \<lceil>1 / (x * 10)\<rceil> < 1 / (x * 10) + 1" by linarith
  then have "of_int \<lceil>1 / (x * 10)\<rceil> < (of_int \<lceil>1 / x\<rceil> / 10 + 1 :: rat)" using b by linarith
  then have "(of_int (10 * \<lceil>1 / (x * 10)\<rceil>) :: rat) < of_int (\<lceil>1 / x\<rceil> + 10)" by simp
  then have c3: "10 * \<lceil>1 / (x * 10)\<rceil> < \<lceil>1 / x\<rceil> + 10" by (simp only: of_int_less_iff)
  have "nat (10 * \<lceil>1 / (x * 10)\<rceil> + \<lfloor>x * 10\<rfloor>) < nat (10 * \<lceil>1 / x\<rceil> + \<lfloor>x\<rfloor>)"
  proof (cases "1 \<le> x * 10")
    case True
    then have "1 / (x * 10) \<le> 1" using x by simp
    then have "\<lceil>1 / (x * 10)\<rceil> \<le> 1" by (simp only: ceiling_le_iff of_int_1)
    then show ?thesis unfolding f0 using f1 f1' c2 c4 by linarith
  next
    case False
    then have "\<lfloor>x * 10\<rfloor> = 0" using x by (simp add: floor_eq_iff)
    then show ?thesis unfolding f0 using c2 c3 c4 by linarith
  qed
  then show ?case by simp
qed

definition pow10 :: "int \<Rightarrow> rat" where
  "pow10 e = (if e \<ge> 0 then 10 ^ nat e else 1 / 10 ^ nat (- e))"

definition decimal_round :: "rat \<Rightarrow> rat" where
  "decimal_round x =
     (if x = 0 then 0
      else
        (let a = \<bar>x\<bar>; quantum = pow10 (decimal_exponent a - 27)
         in sgn x * of_int (round_half_even (a / quantum)) * quantum))"

declare decimal_exponent.simps [simp del]

section \<open>hft\_system/core/orderbook.py: the limit order book\<close>

record OrderBookLevel =
  lvl_price :: decimal
  lvl_size :: decimal
  lvl_num_orders :: int

record OrderBookSnapshot =
  snap_symbol :: string
  snap_venue_id :: string
  snap_bids :: "OrderBookLevel list"
  snap_asks :: "OrderBookLevel list"
  snap_timestamp :: timestamp
  snap_sequence_number :: int

record OrderBookUpdate =
  upd_timestamp :: timestamp
  upd_side :: Side
  upd_price :: decimal
  upd_size :: decimal
  upd_action :: string

record OrderBook =
  ob_symbol :: string
  ob_venue_id :: string
  ob_bids :: "(decimal \<times> decimal) list"
  ob_asks :: "(decimal \<times> decimal) list"
  ob_bid_prices :: "decimal list"
  ob_ask_prices :: "decimal list"
  ob_last_update :: "timestamp option"
  ob_sequence_number :: int
  ob_update_count :: int

definition OrderBook_init :: "string \<Rightarrow> string \<Rightarrow> OrderBook" where
  "OrderBook_init symbol venue_id =
     \<lparr>ob_symbol = symbol, ob_venue_id = venue_id, ob_bids = [], ob_asks = [],
      ob_bid_prices = [], ob_ask_prices = [], ob_last_update = None,
      ob_sequence_number = 0, ob_update_count = 0\<rparr>"

text \<open>\<open>_rebuild_sorted_levels\<close>: bid keys sorted descending, ask keys ascending.\<close>

definition rebuild_sorted_levels :: "OrderBook \<Rightarrow> OrderBook" where
  "rebuild_sorted_levels ob =
     ob\<lparr>ob_bid_prices := rev (sort (map fst (ob_bids ob))),
        ob_ask_prices := sort (map fst (ob_asks ob))\<rparr>"

text \<open>The two loops of \<open>update_snapshot\<close> that refill a cleared side.\<close>

fun load_levels :: "OrderBookLevel list \<Rightarrow> (decimal \<times> decimal) list \<Rightarrow> (decimal \<times> decimal) list" where
  "load_levels [] d = d"
| "load_levels (l # ls) d =
     load_levels ls (if lvl_size l > 0 then AList.update (lvl_price l) (lvl_size l) d else d)"

definition update_snapshot :: "OrderBook \<Rightarrow> OrderBookSnapshot \<Rightarrow> OrderBook" where
  "update_snapshot ob snapshot =
     (let ob1 = ob\<lparr>ob_bids := load_levels (snap_bids snapshot) [],
                   ob_asks := load_levels (snap_asks snapshot) []\<rparr>;
          ob2 = rebuild_sorted_levels ob1
      in ob2\<lparr>ob_last_update := Some (snap_timestamp snapshot),
             ob_sequence_number := snap_sequence_number snapshot,
             ob_update_count := ob_update_count ob2 + 1\<rparr>)"

definition update_incremental :: "OrderBook \<Rightarrow> OrderBookUpdate \<Rightarrow> OrderBook" where
  "update_incremental ob update =
     (let ob1 =
            (if upd_side update = BUY then
               rebuild_sorted_levels
                 (if upd_action update = ''DELETE'' \<or> upd_size update = 0
                  then ob\<lparr>ob_bids := AList.delete (upd_price update) (ob_bids ob)\<rparr>
                  else ob\<lparr>ob_bids := AList.update (upd_price update) (upd_size update) (ob_bids ob)\<rparr>)
             else
               rebuild_sorted_levels
                 (if upd_action update = ''DELETE'' \<or> upd_size update = 0
                  then ob\<lparr>ob_asks := AList.delete (upd_price update) (ob_asks ob)\<rparr>
                  else ob\<lparr>ob_asks := AList.update (upd_price update) (upd_size update) (ob_asks ob)\<rparr>))
      in ob1\<lparr>ob_last_update := Some (upd_timestamp update),
             ob_sequence_number := ob_sequence_number ob1 + 1,
             ob_update_count := ob_update_count ob1 + 1\<rparr>)"

text \<open>
  \<open>get_best_bid\<close> / \<open>get_best_ask\<close>: \<open>None\<close> on an empty sorted view, otherwise the
  level at its head; the subscript \<open>self.bids[price]\<close> raises \<open>KeyError\<close> when the
  cached view names a price the dict does not hold.
\<close>

definition level_at :: "(decimal \<times> decimal) list \<Rightarrow> decimal \<Rightarrow> py_error + OrderBookLevel option" where
  "level_at d p =
     (case map_of d p of
        None \<Rightarrow> Inl KeyError
      | Some s \<Rightarrow> Inr (Some \<lparr>lvl_price = p, lvl_size = s, lvl_num_orders = 1\<rparr>))"

definition get_best_bid :: "OrderBook \<Rightarrow> py_error + OrderBookLevel option" where
  "get_best_bid ob =
     (case ob_bid_prices ob of [] \<Rightarrow> Inr None | p # _ \<Rightarrow> level_at (ob_bids ob) p)"

definition get_best_ask :: "OrderBook \<Rightarrow> py_error + OrderBookLevel option" where
  "get_best_ask ob =
     (case ob_ask_prices ob of [] \<Rightarrow> Inr None | p # _ \<Rightarrow> level_at (ob_asks ob) p)"

text \<open>
  The derived quantities all start with \<open>best_bid = self.get_best_bid()\<close> and
  \<open>best_ask = self.get_best_ask()\<close>; \<open>with_tops\<close> is that prefix. A level object is
  always truthy, so \<open>if best_bid and best_ask\<close> tests both for \<open>None\<close>.
\<close>

definition with_tops ::
  "OrderBook \<Rightarrow> (OrderBookLevel \<Rightarrow> OrderBookLevel \<Rightarrow> decimal option) \<Rightarrow> py_error + decimal option" where
  "with_tops ob f =
     (case get_best_bid ob of
        Inl e \<Rightarrow> Inl e
      | Inr best_bid \<Rightarrow>
          (case get_best_ask ob of
             Inl e \<Rightarrow> Inl e
           | Inr best_ask \<Rightarrow>
               (case (best_bid, best_ask) of
                  (Some b, Some a) \<Rightarrow> Inr (f b a)
                | _ \<Rightarrow> Inr None)))"

definition get_mid_price :: "OrderBook \<Rightarrow> py_error + decimal option" where
  "get_mid_price ob = with_tops ob (\<lambda>b a. Some ((lvl_price b + lvl_price a) / 2))"

definition get_spread :: "OrderBook \<Rightarrow> py_error + decimal option" where
  "get_spread ob = with_tops ob (\<lambda>b a. Some (lvl_price a - lvl_price b))"

definition get_microprice :: "OrderBook \<Rightarrow> py_error + decimal option" where
  "get_microprice ob =
     with_tops ob (\<lambda>b a.
       (let total_size = lvl_size b + lvl_size a
        in if total_size > 0
           then Some ((lvl_size a * lvl_price b + lvl_size b * lvl_price a) / total_size)
           else None))"

definition get_order_book_imbalance :: "OrderBook \<Rightarrow> decimal" where
  "get_order_book_imbalance ob =
     (let bid_liq = sum_list (map snd (ob_bids ob));
          ask_liq = sum_list (map snd (ob_asks ob));
          total_liq = bid_liq + ask_liq
      in if total_liq = 0 then 0 else (bid_liq - ask_liq) / total_liq)"

text \<open>
  The spec's invariant "book uncrossed": when both tops exist, the best bid price is
  strictly below the best ask price.
\<close>

definition book_uncrossed :: "OrderBook \<Rightarrow> bool" where
  "book_uncrossed ob =
     (case (get_best_bid ob, get_best_ask ob) of
        (Inr (Some b), Inr (Some a)) \<Rightarrow> lvl_price b < lvl_price a
      | _ \<Rightarrow> True)"

section \<open>hft-trading-system/core/data\_structures/market\_data.py: the list-based book\<close>

record PriceLevel =
  pl_price :: rat
  pl_quantity :: rat
  pl_num_orders :: int

record MD_OrderBook =
  md_symbol :: string
  md_timestamp :: timestamp
  md_bids :: "PriceLevel list"
  md_asks :: "PriceLevel list"
  md_sequence_number :: int

definition MD_OrderBook_init :: "string \<Rightarrow> timestamp \<Rightarrow> MD_OrderBook" where
  "MD_OrderBook_init symbol now =
     \<lparr>md_symbol = symbol, md_timestamp = now, md_bids = [], md_asks = [],
      md_sequence_number = 0\<rparr>"

text \<open>
  \<open>bisect.bisect_left(a, x)\<close> of the standard library: the binary search
  \<open>while lo < hi: mid = (lo + hi) // 2; if a[mid] < x: lo = mid + 1 else: hi = mid\<close>,
  started at \<open>lo = 0\<close>, \<open>hi = len(a)\<close>.
\<close>

function bisect_left_loop :: "rat list \<Rightarrow> rat \<Rightarrow> nat \<Rightarrow> nat \<Rightarrow> nat" where
  "bisect_left_loop a x lo hi =
     (if lo < hi then
        (let mid = (lo + hi) div 2
         in if a ! mid < x then bisect_left_loop a x (mid + 1) hi
            else bisect_left_loop a x lo mid)
      else lo)"
  by pat_completeness auto
termination
  by (relation "measure (\<lambda>(a, x, lo, hi). hi - lo)") auto

definition bisect_left :: "rat list \<Rightarrow> rat \<Rightarrow> nat" where
  "bisect_left a x = bisect_left_loop a x 0 (length a)"

text \<open>
  \<open>_update_level\<close>: the \<open>for\<close> loop overwrites the first level with the same price and
  returns; \<open>replace_level\<close> is that loop, \<open>None\<close> when it falls through. Otherwise the
  level is inserted at the bisection index (on negated prices for the bid side).
\<close>

fun replace_level :: "PriceLevel list \<Rightarrow> PriceLevel \<Rightarrow> PriceLevel list option" where
  "replace_level [] level = None"
| "replace_level (existing # rest) level =
     (if pl_price existing = pl_price level then Some (level # rest)
      else map_option (\<lambda>r. existing # r) (replace_level rest level))"

definition list_insert :: "'a list \<Rightarrow> nat \<Rightarrow> 'a \<Rightarrow> 'a list" where
  "list_insert xs idx v = take idx xs @ v # drop idx xs"

definition update_level :: "PriceLevel list \<Rightarrow> PriceLevel \<Rightarrow> bool \<Rightarrow> PriceLevel list" where
  "update_level side level reverse =
     (case replace_level side level of
        Some side' \<Rightarrow> side'
      | None \<Rightarrow>
          (let idx = (if reverse
                      then bisect_left (map (\<lambda>l. - pl_price l) side) (- pl_price level)
                      else bisect_left (map pl_price side) (pl_price level))
           in list_insert side idx level))"

definition remove_level :: "PriceLevel list \<Rightarrow> rat \<Rightarrow> bool \<Rightarrow> PriceLevel list" where
  "remove_level side price reverse = filter (\<lambda>l. pl_price l \<noteq> price) side"

definition update_bid :: "MD_OrderBook \<Rightarrow> timestamp \<Rightarrow> rat \<Rightarrow> rat \<Rightarrow> int \<Rightarrow> MD_OrderBook" where
  "update_bid book now price quantity num_orders =
     (let level = \<lparr>pl_price = price, pl_quantity = quantity, pl_num_orders = num_orders\<rparr>
      in (if quantity = 0
          then book\<lparr>md_bids := remove_level (md_bids book) price True\<rparr>
          else book\<lparr>md_bids := update_level (md_bids book) level True\<rparr>)
         \<lparr>md_timestamp := now\<rparr>)"

definition update_ask :: "MD_OrderBook \<Rightarrow> timestamp \<Rightarrow> rat \<Rightarrow> rat \<Rightarrow> int \<Rightarrow> MD_OrderBook" where
  "update_ask book now price quantity num_orders =
     (let level = \<lparr>pl_price = price, pl_quantity = quantity, pl_num_orders = num_orders\<rparr>
      in (if quantity = 0
          then book\<lparr>md_asks := remove_level (md_asks book) price False\<rparr>
          else book\<lparr>md_asks := update_level (md_asks book) level False\<rparr>)
         \<lparr>md_timestamp := now\<rparr>)"

definition best_bid :: "MD_OrderBook \<Rightarrow> PriceLevel option" where
  "best_bid book = (case md_bids book of [] \<Rightarrow> None | l # _ \<Rightarrow> Some l)"

definition best_ask :: "MD_OrderBook \<Rightarrow> PriceLevel option" where
  "best_ask book = (case md_asks book of [] \<Rightarrow> None | l # _ \<Rightarrow> Some l)"

definition spread :: "MD_OrderBook \<Rightarrow> rat" where
  "spread book =
     (case (best_bid book, best_ask book) of
        (Some b, Some a) \<Rightarrow> pl_price a - pl_price b
      | _ \<Rightarrow> 0)"

definition mid_price :: "MD_OrderBook \<Rightarrow> rat" where
  "mid_price book =
     (case (best_bid book, best_ask book) of
        (Some b, Some a) \<Rightarrow> (pl_price b + pl_price a) / 2
      | _ \<Rightarrow> 0)"

section \<open>hft-trading-system/core/data\_structures/order.py\<close>

type_synonym OrderSide = Side

datatype OrderType = LIMIT | MARKET | ICEBERG | VWAP | TWAP

datatype OrderStatus = PENDING | SUBMITTED | PARTIAL_FILL | FILLED | CANCELLED | REJECTED

datatype TimeInForce = GTC | IOC | FOK | DAY

record Order =
  o_order_id :: string
  o_client_order_id :: string
  o_symbol :: string
  o_side :: OrderSide
  o_order_type :: OrderType
  o_quantity :: rat
  o_price :: "rat option"
  o_time_in_force :: TimeInForce
  o_status :: OrderStatus
  o_filled_quantity :: rat
  o_average_fill_price :: rat
  o_timestamp :: timestamp
  o_last_update :: timestamp
  o_venue :: string
  o_parent_order_id :: "string option"
  o_strategy_id :: "string option"
  o_account_id :: "string option"

definition remaining_quantity :: "Order \<Rightarrow> rat" where
  "remaining_quantity order = o_quantity order - o_filled_quantity order"

record Fill =
  f_fill_id :: string
  f_order_id :: string
  f_symbol :: string
  f_side :: OrderSide
  f_quantity :: rat
  f_price :: rat
  f_timestamp :: timestamp
  f_venue :: string
  f_fee :: rat
  f_fee_currency :: string
  f_liquidity_flag :: string

definition notional :: "Fill \<Rightarrow> rat" where
  "notional fill = f_quantity fill * f_price fill"

section \<open>hft-trading-system/core/risk/risk\_manager.py: the risk gate\<close>

record RiskLimits =
  max_position_size :: rat
  max_total_exposure :: rat
  max_order_size :: rat
  min_order_size :: rat
  max_daily_loss :: rat
  max_daily_volume :: rat
  max_trades_per_day :: int
  max_position_concentration :: rat
  max_price_deviation :: rat
  max_orders_per_second :: int
  max_cancels_per_second :: int
  max_drawdown_pct :: rat

text \<open>
  The defaults of \<open>RiskLimits\<close>. \<open>max_price_deviation\<close> is compared with a quotient of
  doubles in the fat-finger check, so its default is the double that the literal \<open>0.05\<close>
  denotes.
\<close>

definition RiskLimits_default :: RiskLimits where
  "RiskLimits_default =
     \<lparr>max_position_size = 1000000, max_total_exposure = 10000000,
      max_order_size = 100000, min_order_size = 100,
      max_daily_loss = 50000, max_daily_volume = 50000000, max_trades_per_day = 10000,
      max_position_concentration = 3 / 10, max_price_deviation = fl (5 / 100),
      max_orders_per_second = 100, max_cancels_per_second = 200,
      max_drawdown_pct = 10 / 100\<rparr>"

record RiskMetrics =
  rm_timestamp :: timestamp
  positions :: "(string \<times> rat) list"
  total_exposure :: rat
  daily_pnl :: rat
  daily_volume :: rat
  daily_trades :: int
  daily_high_equity :: rat
  daily_low_equity :: rat
  orders_this_second :: int
  cancels_this_second :: int
  last_rate_reset :: timestamp

definition RiskMetrics_init :: "timestamp \<Rightarrow> RiskMetrics" where
  "RiskMetrics_init now =
     \<lparr>rm_timestamp = now, positions = [], total_exposure = 0, daily_pnl = 0,
      daily_volume = 0, daily_trades = 0, daily_high_equity = 0, daily_low_equity = 0,
      orders_this_second = 0, cancels_this_second = 0, last_rate_reset = now\<rparr>"

text \<open>
  The reason strings are f-strings over the numbers involved; each is a constructor here that
  carries the same numbers. \<open>halt_text\<close> is the text given to \<open>_trigger_circuit_breaker\<close>,
  \<open>detail\<close> the second component of a check's result, \<open>reason\<close> the second component of
  the verdict of \<open>pre_trade_check\<close> (the check's name prefixed to its detail).
\<close>

datatype halt_text = DailyLossExceeds rat rat | DrawdownExceeds rat rat

datatype detail =
    MarketOrder | NoReferencePrice | PriceDeviation pyfloat rat rat rat | PriceWithinRange
  | SizeBelowMinimum rat rat | SizeExceedsMaximum rat rat | OrderSizeAcceptable
  | NewPositionExceeds rat rat | NewTotalExposureExceeds rat rat | PositionLimitsOK
  | DailyLossLimitExceeded | DailyLossWithinLimit
  | NewDailyVolumeExceeds rat rat | DailyTradeCountReached int | DailyVolumeOK
  | OrderRateExceeded int | RateLimitOK
  | NoConcentrationRisk | ConcentrationExceeds rat rat | ConcentrationOK
  | NoDrawdown | DrawdownLimitExceeded | DrawdownWithinLimit

datatype reason =
    TradingHalted "halt_text option"
  | FatFingerCheckFailed detail
  | OrderSizeCheckFailed detail
  | PositionLimitCheckFailed detail
  | DailyLossLimitCheckFailed detail
  | DailyVolumeLimitCheckFailed detail
  | RateLimitCheckFailed detail
  | ConcentrationLimitCheckFailed detail
  | DrawdownLimitCheckFailed detail
  | Approved

record RiskManager =
  limits :: RiskLimits
  initial_capital :: rat
  current_capital :: rat
  metrics :: RiskMetrics
  pending_orders :: "(string \<times> Order) list"
  fills_today :: "Fill list"
  is_trading_halted :: bool
  halt_reason :: "halt_text option"
  reference_prices :: "(string \<times> rat) list"

definition RiskManager_init :: "RiskLimits \<Rightarrow> rat \<Rightarrow> timestamp \<Rightarrow> RiskManager" where
  "RiskManager_init lims capital now =
     \<lparr>limits = lims, initial_capital = capital, current_capital = capital,
      metrics = (RiskMetrics_init now)\<lparr>daily_high_equity := capital\<rparr>,
      pending_orders = [], fills_today = [], is_trading_halted = False,
      halt_reason = None, reference_prices = []\<rparr>"

text \<open>\<open>d.get(k, default)\<close> and \<open>order.price or 0\<close>.\<close>

definition dict_get :: "('k \<times> 'v) list \<Rightarrow> 'k \<Rightarrow> 'v \<Rightarrow> 'v" where
  "dict_get d k dflt = (case map_of d k of None \<Rightarrow> dflt | Some v \<Rightarrow> v)"

definition price_or_0 :: "Order \<Rightarrow> rat" where
  "price_or_0 order = (case o_price order of None \<Rightarrow> 0 | Some p \<Rightarrow> p)"

definition trigger_circuit_breaker :: "RiskManager \<Rightarrow> halt_text \<Rightarrow> RiskManager" where
  "trigger_circuit_breaker rm why = rm\<lparr>is_trading_halted := True, halt_reason := Some why\<rparr>"

text \<open>
  \<open>_check_fat_finger\<close>. Order price, reference price and limit are floats, and the
  deviation is the double that \<open>abs(order.price - ref_price) / ref_price\<close> evaluates to.
\<close>

definition check_fat_finger :: "RiskManager \<Rightarrow> Order \<Rightarrow> py_error + (bool \<times> detail)" where
  "check_fat_finger rm order =
     (case o_price order of
        None \<Rightarrow> Inr (True, MarketOrder)
      | Some price \<Rightarrow>
          (case map_of (reference_prices rm) (o_symbol order) of
             None \<Rightarrow> Inr (True, NoReferencePrice)
           | Some ref_price \<Rightarrow>
               if ref_price = 0 then Inl ZeroDivisionError
               else
                 (let deviation =
                        float_truediv (float_abs (float_sub price ref_price)) ref_price
                  in if float_gt deviation (max_price_deviation (limits rm))
                     then Inr (False, PriceDeviation deviation (max_price_deviation (limits rm))
                                        price ref_price)
                     else Inr (True, PriceWithinRange))))"

definition check_order_size :: "RiskManager \<Rightarrow> Order \<Rightarrow> bool \<times> detail" where
  "check_order_size rm order =
     (if o_quantity order < min_order_size (limits rm)
      then (False, SizeBelowMinimum (o_quantity order) (min_order_size (limits rm)))
      else if o_quantity order > max_order_size (limits rm)
      then (False, SizeExceedsMaximum (o_quantity order) (max_order_size (limits rm)))
      else (True, OrderSizeAcceptable))"

definition check_position_limits :: "RiskManager \<Rightarrow> Order \<Rightarrow> bool \<times> detail" where
  "check_position_limits rm order =
     (let current_position = dict_get (positions (metrics rm)) (o_symbol order) 0;
          order_delta = (if o_side order = BUY then o_quantity order else - o_quantity order);
          new_position = current_position + order_delta
      in if \<bar>new_position\<bar> > max_position_size (limits rm)
         then (False, NewPositionExceeds new_position (max_position_size (limits rm)))
         else
           (let new_total_exposure =
                  total_exposure (metrics rm) + \<bar>order_delta * price_or_0 order\<bar>
            in if new_total_exposure > max_total_exposure (limits rm)
               then (False, NewTotalExposureExceeds new_total_exposure
                              (max_total_exposure (limits rm)))
               else (True, PositionLimitsOK)))"

definition check_daily_loss_limit :: "RiskManager \<Rightarrow> (bool \<times> detail) \<times> RiskManager" where
  "check_daily_loss_limit rm =
     (if - daily_pnl (metrics rm) > max_daily_loss (limits rm)
      then ((False, DailyLossLimitExceeded),
            trigger_circuit_breaker rm
              (DailyLossExceeds (- daily_pnl (metrics rm)) (max_daily_loss (limits rm))))
      else ((True, DailyLossWithinLimit), rm))"

definition check_daily_volume_limit :: "RiskManager \<Rightarrow> Order \<Rightarrow> bool \<times> detail" where
  "check_daily_volume_limit rm order =
     (let order_notional = o_quantity order * price_or_0 order;
          new_daily_volume = daily_volume (metrics rm) + order_notional
      in if new_daily_volume > max_daily_volume (limits rm)
         then (False, NewDailyVolumeExceeds new_daily_volume (max_daily_volume (limits rm)))
         else if daily_trades (metrics rm) \<ge> max_trades_per_day (limits rm)
         then (False, DailyTradeCountReached (max_trades_per_day (limits rm)))
         else (True, DailyVolumeOK))"

text \<open>\<open>now\<close> is the value of \<open>datetime.utcnow()\<close> read by \<open>_check_rate_limits\<close>.\<close>

definition check_rate_limits ::
  "RiskManager \<Rightarrow> timestamp \<Rightarrow> Order \<Rightarrow> (bool \<times> detail) \<times> RiskManager" where
  "check_rate_limits rm now order =
     (let m = metrics rm;
          m1 = (if now - last_rate_reset m \<ge> 1
                then m\<lparr>orders_this_second := 0, cancels_this_second := 0,
                       last_rate_reset := now\<rparr>
                else m)
      in if orders_this_second m1 \<ge> max_orders_per_second (limits rm)
         then ((False, OrderRateExceeded (max_orders_per_second (limits rm))),
               rm\<lparr>metrics := m1\<rparr>)
         else ((True, RateLimitOK),
               rm\<lparr>metrics := m1\<lparr>orders_this_second := orders_this_second m1 + 1\<rparr>\<rparr>))"

definition check_concentration_limits :: "RiskManager \<Rightarrow> Order \<Rightarrow> py_error + (bool \<times> detail)" where
  "check_concentration_limits rm order =
     (if total_exposure (metrics rm) = 0 then Inr (True, NoConcentrationRisk)
      else
        (let current_position_value =
               \<bar>dict_get (positions (metrics rm)) (o_symbol order) 0 * price_or_0 order\<bar>;
             order_value = o_quantity order * price_or_0 order;
             new_position_value = current_position_value + order_value
         in if total_exposure (metrics rm) + order_value = 0 then Inl ZeroDivisionError
            else
              (let concentration =
                     new_position_value / (total_exposure (metrics rm) + order_value)
               in if concentration > max_position_concentration (limits rm)
                  then Inr (False, ConcentrationExceeds concentration
                                     (max_position_concentration (limits rm)))
                  else Inr (True, ConcentrationOK))))"

definition check_drawdown_limit :: "RiskManager \<Rightarrow> (bool \<times> detail) \<times> RiskManager" where
  "check_drawdown_limit rm =
     (if daily_high_equity (metrics rm) = 0 then ((True, NoDrawdown), rm)
      else
        (let drawdown = (daily_high_equity (metrics rm) - current_capital rm)
                          / daily_high_equity (metrics rm)
         in if drawdown > max_drawdown_pct (limits rm)
            then ((False, DrawdownLimitExceeded),
                  trigger_circuit_breaker rm
                    (DrawdownExceeds drawdown (max_drawdown_pct (limits rm))))
            else ((True, DrawdownWithinLimit), rm)))"

text \<open>
  \<open>pre_trade_check\<close>: the verdict (or the exception that escapes) and the manager as the
  call leaves it. The checks run in the source's order and the first failure returns.
\<close>

definition pre_trade_check ::
  "RiskManager \<Rightarrow> timestamp \<Rightarrow> Order \<Rightarrow> (py_error + (bool \<times> reason)) \<times> RiskManager" where
  "pre_trade_check rm now order =
     (if is_trading_halted rm then (Inr (False, TradingHalted (halt_reason rm)), rm)
      else
      (case check_fat_finger rm order of
         Inl e \<Rightarrow> (Inl e, rm)
       | Inr (approved1, reason1) \<Rightarrow>
      (if \<not> approved1 then (Inr (False, FatFingerCheckFailed reason1), rm)
       else
      (case check_order_size rm order of (approved2, reason2) \<Rightarrow>
      (if \<not> approved2 then (Inr (False, OrderSizeCheckFailed reason2), rm)
       else
      (case check_position_limits rm order of (approved3, reason3) \<Rightarrow>
      (if \<not> approved3 then (Inr (False, PositionLimitCheckFailed reason3), rm)
       else
      (case check_daily_loss_limit rm of ((approved4, reason4), rm4) \<Rightarrow>
      (if \<not> approved4 then (Inr (False, DailyLossLimitCheckFailed reason4), rm4)
       else
      (case check_daily_volume_limit rm4 order of (approved5, reason5) \<Rightarrow>
      (if \<not> approved5 then (Inr (False, DailyVolumeLimitCheckFailed reason5), rm4)
       else
      (case check_rate_limits rm4 now order of ((approved6, reason6), rm6) \<Rightarrow>
      (if \<not> approved6 then (Inr (False, RateLimitCheckFailed reason6), rm6)
       else
      (case check_concentration_limits rm6 order of
         Inl e \<Rightarrow> (Inl e, rm6)
       | Inr (approved7, reason7) \<Rightarrow>
      (if \<not> approved7 then (Inr (False, ConcentrationLimitCheckFailed reason7), rm6)
       else
      (case check_drawdown_limit rm6 of ((approved8, reason8), rm8) \<Rightarrow>
      (if \<not> approved8 then (Inr (False, DrawdownLimitCheckFailed reason8), rm8)
       else
         (Inr (True, Approved),
          rm8\<lparr>pending_orders :=
                AList.update (o_order_id order) order (pending_orders rm8)\<rparr>)
      )))))))))))))))))"

definition recalculate_exposure :: "RiskManager \<Rightarrow> RiskManager" where
  "recalculate_exposure rm =
     rm\<lparr>metrics := (metrics rm)\<lparr>total_exposure :=
          sum_list (map (\<lambda>(symbol, pos). \<bar>pos * dict_get (reference_prices rm) symbol 0\<bar>)
                        (positions (metrics rm)))\<rparr>\<rparr>"

definition on_fill :: "RiskManager \<Rightarrow> Fill \<Rightarrow> RiskManager" where
  "on_fill rm fill =
     (let position_delta = (if f_side fill = BUY then f_quantity fill else - f_quantity fill);
          current_position = dict_get (positions (metrics rm)) (f_symbol fill) 0;
          m1 = (metrics rm)\<lparr>positions :=
                  AList.update (f_symbol fill) (current_position + position_delta)
                    (positions (metrics rm))\<rparr>;
          m2 = m1\<lparr>daily_volume := daily_volume m1 + notional fill,
                  daily_trades := daily_trades m1 + 1\<rparr>;
          pnl_delta = (if f_side fill = BUY then - notional fill else notional fill);
          m3 = m2\<lparr>daily_pnl := daily_pnl m2 + pnl_delta\<rparr>;
          capital = initial_capital rm + daily_pnl m3;
          m4 = (if capital > daily_high_equity m3 then m3\<lparr>daily_high_equity := capital\<rparr>
                else m3);
          rm1 = recalculate_exposure
                  (rm\<lparr>metrics := m4, fills_today := fills_today rm @ [fill],
                      current_capital := capital\<rparr>)
      in rm1\<lparr>pending_orders := AList.delete (f_order_id fill) (pending_orders rm1)\<rparr>)"

definition update_reference_price :: "RiskManager \<Rightarrow> string \<Rightarrow> rat \<Rightarrow> RiskManager" where
  "update_reference_price rm symbol price =
     rm\<lparr>reference_prices := AList.update symbol price (reference_prices rm)\<rparr>"

definition reset_daily_metrics :: "RiskManager \<Rightarrow> timestamp \<Rightarrow> RiskManager" where
  "reset_daily_metrics rm now =
     rm\<lparr>initial_capital := current_capital rm,
        metrics := (RiskMetrics_init now)\<lparr>daily_high_equity := current_capital rm\<rparr>,
        fills_today := [],
        is_trading_halted := False,
        halt_reason := None\<rparr>"

section \<open>hft-trading-system/core/database/timeseries\_db.py: OHLCV aggregation\<close>

record Tick =
  t_symbol :: string
  t_timestamp :: timestamp
  t_price :: rat
  t_quantity :: rat
  t_side :: string
  t_trade_id :: string

record OHLCV =
  bar_symbol :: string
  bar_timestamp :: timestamp
  bar_open :: rat
  bar_high :: rat
  bar_low :: rat
  bar_close :: rat
  bar_volume :: rat
  bar_vwap :: rat
  bar_num_trades :: int

text \<open>
  \<open>_parse_interval\<close>: \<open>unit = interval[-1]\<close>, \<open>value = int(interval[:-1])\<close>. Python's
  \<open>int\<close> on a string is the parameter \<open>py_int\<close> (\<open>None\<close> where it raises
  \<open>ValueError\<close>).
\<close>

definition parse_interval :: "(string \<Rightarrow> int option) \<Rightarrow> string \<Rightarrow> py_error + int" where
  "parse_interval py_int interval =
     (if interval = [] then Inl IndexError
      else
        (let unit = last interval
         in case py_int (butlast interval) of
              None \<Rightarrow> Inl ValueError
            | Some v \<Rightarrow>
                if unit = CHR ''s'' then Inr v
                else if unit = CHR ''m'' then Inr (v * 60)
                else if unit = CHR ''h'' then Inr (v * 3600)
                else if unit = CHR ''d'' then Inr (v * 86400)
                else Inl ValueError))"

text \<open>\<open>_floor_timestamp\<close>: \<open>(epoch // interval_seconds) * interval_seconds\<close>.\<close>

definition floor_timestamp :: "timestamp \<Rightarrow> int \<Rightarrow> py_error + timestamp" where
  "floor_timestamp ts interval_seconds =
     (if interval_seconds = 0 then Inl ZeroDivisionError
      else Inr (of_int (\<lfloor>ts / of_int interval_seconds\<rfloor>) * of_int interval_seconds))"

definition new_bar :: "string \<Rightarrow> timestamp \<Rightarrow> Tick \<Rightarrow> OHLCV" where
  "new_bar symbol bar_start tick =
     \<lparr>bar_symbol = symbol, bar_timestamp = bar_start,
      bar_open = t_price tick, bar_high = t_price tick, bar_low = t_price tick,
      bar_close = t_price tick, bar_volume = t_quantity tick, bar_vwap = 0,
      bar_num_trades = 1\<rparr>"

definition extend_bar :: "OHLCV \<Rightarrow> Tick \<Rightarrow> OHLCV" where
  "extend_bar current_bar tick =
     current_bar\<lparr>bar_high := max (bar_high current_bar) (t_price tick),
                 bar_low := min (bar_low current_bar) (t_price tick),
                 bar_close := t_price tick,
                 bar_volume := bar_volume current_bar + t_quantity tick,
                 bar_num_trades := bar_num_trades current_bar + 1\<rparr>"

text \<open>The \<open>for tick in ticks\<close> loop, with \<open>bars\<close>, \<open>current_bar_start\<close> and \<open>current_bar\<close>.\<close>

fun aggregate_bars ::
  "string \<Rightarrow> int \<Rightarrow> Tick list \<Rightarrow> OHLCV list \<Rightarrow> timestamp \<Rightarrow> OHLCV option
     \<Rightarrow> py_error + (OHLCV list \<times> OHLCV option)" where
  "aggregate_bars symbol n [] bars current_bar_start current_bar = Inr (bars, current_bar)"
| "aggregate_bars symbol n (tick # rest) bars current_bar_start current_bar =
     (case floor_timestamp (t_timestamp tick) n of
        Inl e \<Rightarrow> Inl e
      | Inr bar_start \<Rightarrow>
          (if bar_start \<noteq> current_bar_start then
             aggregate_bars symbol n rest
               (case current_bar of None \<Rightarrow> bars | Some b \<Rightarrow> bars @ [b])
               bar_start (Some (new_bar symbol bar_start tick))
           else
             (case current_bar of
                None \<Rightarrow>
                  aggregate_bars symbol n rest bars current_bar_start
                    (Some (new_bar symbol bar_start tick))
              | Some b \<Rightarrow>
                  aggregate_bars symbol n rest bars current_bar_start
                    (Some (extend_bar b tick)))))"

text \<open>
  \<open>query_ohlcv\<close>; \<open>ticks\<close> is what \<open>query_ticks(symbol, start_time, end_time)\<close>
  returned. The last loop sets every bar's \<open>vwap\<close>.
\<close>

definition set_vwap :: "OHLCV \<Rightarrow> OHLCV" where
  "set_vwap bar = bar\<lparr>bar_vwap := (bar_open bar + bar_high bar + bar_low bar + bar_close bar) / 4\<rparr>"

definition query_ohlcv ::
  "(string \<Rightarrow> int option) \<Rightarrow> string \<Rightarrow> Tick list \<Rightarrow> string \<Rightarrow> py_error + OHLCV list" where
  "query_ohlcv py_int symbol ticks interval =
     (case ticks of
        [] \<Rightarrow> Inr []
      | first # _ \<Rightarrow>
          (case parse_interval py_int interval of
             Inl e \<Rightarrow> Inl e
           | Inr interval_seconds \<Rightarrow>
               (case floor_timestamp (t_timestamp first) interval_seconds of
                  Inl e \<Rightarrow> Inl e
                | Inr current_bar_start \<Rightarrow>
                    (case aggregate_bars symbol interval_seconds ticks [] current_bar_start None of
                       Inl e \<Rightarrow> Inl e
                     | Inr (bars, current_bar) \<Rightarrow>
                         Inr (map set_vwap
                                (case current_bar of None \<Rightarrow> bars | Some b \<Rightarrow> bars @ [b]))))))"

text \<open>
  The spec's definition of the field: the size-weighted mean trade price of the trades of
  one bar.
\<close>

definition size_weighted_mean_price :: "Tick list \<Rightarrow> rat" where
  "size_weighted_mean_price trades =
     sum_list (map (\<lambda>t. t_price t * t_quantity t) trades) / sum_list (map t_quantity trades)"

section \<open>hft-trading-system/backtesting/backtest\_engine.py\<close>

record BacktestConfig =
  maker_fee_bps :: rat
  taker_fee_bps :: rat
  order_latency_ms :: rat
  cancel_latency_ms :: rat
  bc_initial_capital :: rat



text \<open>
  \<open>_simulate_fill\<close>: \<open>(fill_price, fill_quantity)\<close>. The slippage of a market order comes
  from \<open>_calculate_slippage\<close>, which takes a floating-point square root; its value is the
  parameter \<open>slippage\<close>. Comparing the tick price with a missing limit price raises
  \<open>TypeError\<close>.
\<close>

definition simulate_fill :: "rat \<Rightarrow> Order \<Rightarrow> Tick \<Rightarrow> py_error + (rat \<times> rat)" where
  "simulate_fill slippage order tick =
     (if o_order_type order = MARKET then
        Inr (if o_side order = BUY then t_price tick * (1 + slippage)
             else t_price tick * (1 - slippage),
             remaining_quantity order)
      else if o_order_type order = LIMIT then
        (case o_price order of
           None \<Rightarrow> Inl TypeError
         | Some price \<Rightarrow>
             if o_side order = BUY then
               (if t_price tick \<le> price
                then Inr (price, min (remaining_quantity order) (t_quantity tick))
                else Inr (0, 0))
             else
               (if t_price tick \<ge> price
                then Inr (price, min (remaining_quantity order) (t_quantity tick))
                else Inr (0, 0)))
      else Inr (0, 0))"

text \<open>
  The "Update order" block of \<open>_check_order_fills\<close> (the running mean divides by the new
  filled quantity), and the part of its loop body that concerns one order of the tick's
  symbol: the order after the tick and the fill recorded, if any (its \<open>fill_id\<close> is a
  fresh UUID, left empty here). The rest of the body books the fill into positions, capital
  and the risk manager and does not touch the order.
\<close>

definition apply_fill :: "Order \<Rightarrow> rat \<Rightarrow> rat \<Rightarrow> py_error + Order" where
  "apply_fill order fill_price fill_qty =
     (let filled = o_filled_quantity order + fill_qty
      in if filled = 0 then Inl ZeroDivisionError
         else
           (let average = (o_average_fill_price order * (filled - fill_qty)
                             + fill_price * fill_qty) / filled
            in Inr (order\<lparr>o_filled_quantity := filled,
                           o_average_fill_price := average,
                           o_status := (if filled \<ge> o_quantity order then FILLED
                                        else PARTIAL_FILL)\<rparr>)))"

definition calculate_fee :: "BacktestConfig \<Rightarrow> rat \<Rightarrow> rat \<Rightarrow> Order \<Rightarrow> rat" where
  "calculate_fee cfg quantity price order =
     (let notional_value = quantity * price;
          fee_bps = (if o_order_type order = MARKET then taker_fee_bps cfg
                     else maker_fee_bps cfg)
      in notional_value * (fee_bps / 10000))"

definition fill_order ::
  "BacktestConfig \<Rightarrow> rat \<Rightarrow> Order \<Rightarrow> Tick \<Rightarrow> py_error + (Order \<times> Fill option)" where
  "fill_order cfg slippage order tick =
     (case simulate_fill slippage order tick of
        Inl e \<Rightarrow> Inl e
      | Inr (fill_price, fill_qty) \<Rightarrow>
          if fill_qty > 0 then
            (case apply_fill order fill_price fill_qty of
               Inl e \<Rightarrow> Inl e
             | Inr order' \<Rightarrow>
                 Inr (order',
                      Some \<lparr>f_fill_id = [], f_order_id = o_order_id order,
                            f_symbol = o_symbol order, f_side = o_side order,
                            f_quantity = fill_qty, f_price = fill_price,
                            f_timestamp = t_timestamp tick, f_venue = ''BACKTEST'',
                            f_fee = calculate_fee cfg fill_qty fill_price order,
                            f_fee_currency = ''USD'',
                            f_liquidity_flag = (if o_order_type order = MARKET then ''TAKER''
                                                else ''MAKER'')\<rparr>))
          else Inr (order, None))"

section \<open>hft\_system/core/types: orders, fills, positions\<close>

datatype CoreOrderStatus =
    PENDING_NEW | NEW | PARTIALLY_FILLED | CORE_FILLED | PENDING_CANCEL | CANCELED
  | CORE_REJECTED | EXPIRED

datatype CoreOrderType =
    CORE_MARKET | CORE_LIMIT | STOP | STOP_LIMIT | CORE_ICEBERG | CORE_TWAP | CORE_VWAP

record Venue =
  venue_id :: string
  venue_name :: string
  is_dark_pool :: bool
  maker_fee :: decimal
  taker_fee :: decimal
  venue_min_order_size :: decimal
  venue_tick_size :: decimal

record Instrument =
  symbol :: string
  exchange :: string
  asset_class :: string
  tick_size :: decimal
  lot_size :: decimal
  min_order_qty :: decimal
  max_order_qty :: decimal
  contract_multiplier :: decimal

record CoreOrder =
  co_order_id :: string
  co_instrument :: Instrument
  co_side :: Side
  co_order_type :: CoreOrderType
  co_quantity :: decimal
  co_price :: "decimal option"
  co_status :: CoreOrderStatus
  co_venue :: "Venue option"
  co_filled_quantity :: decimal
  co_avg_fill_price :: decimal
  co_submitted_at :: "timestamp option"

record CoreFill =
  cf_order_id :: string
  cf_instrument :: Instrument
  cf_side :: Side
  cf_quantity :: decimal
  cf_price :: decimal
  cf_venue :: Venue
  cf_commission :: decimal
  cf_timestamp :: timestamp

record Position =
  pos_instrument :: Instrument
  pos_quantity :: decimal
  pos_avg_entry_price :: decimal
  pos_realized_pnl :: decimal
  pos_unrealized_pnl :: decimal
  pos_total_pnl :: decimal

definition snapshot_mid_price :: "OrderBookSnapshot \<Rightarrow> decimal option" where
  "snapshot_mid_price snapshot =
     (case (snap_bids snapshot, snap_asks snapshot) of
        (b # _, a # _) \<Rightarrow> Some ((lvl_price b + lvl_price a) / 2)
      | _ \<Rightarrow> None)"

section \<open>hft\_system/backtesting/engine.py: the order executor\<close>

record CoreBacktestConfig =
  cfg_venues :: "Venue list"
  enable_market_impact :: bool
  enable_slippage :: bool
  enable_fees :: bool
  enable_partial_fills :: bool
  partial_fill_probability :: rat

record BacktestOrderBook =
  bob_instrument :: Instrument
  bob_venue :: Venue
  bob_snapshot :: "OrderBookSnapshot option"
  bob_last_trade_price :: "decimal option"

text \<open>
  \<open>get_execution_price\<close>: the base price is the snapshot's mid when there is a snapshot and
  its mid is neither \<open>None\<close> nor zero, else \<open>last_trade_price or Decimal("100.0")\<close>.
\<close>

definition get_execution_price ::
  "BacktestOrderBook \<Rightarrow> CoreOrder \<Rightarrow> decimal \<Rightarrow> decimal \<Rightarrow> decimal" where
  "get_execution_price book order market_impact slippage =
     (let fallback = (case bob_last_trade_price book of
                        None \<Rightarrow> 100
                      | Some p \<Rightarrow> if p = 0 then 100 else p);
          base_price =
            (case bob_snapshot book of
               None \<Rightarrow> fallback
             | Some snapshot \<Rightarrow>
                 (case snapshot_mid_price snapshot of
                    None \<Rightarrow> fallback
                  | Some m \<Rightarrow> if m = 0 then fallback else m));
          execution_price =
            (if co_side order = BUY then base_price + market_impact + slippage
             else base_price - market_impact - slippage)
      in max execution_price (tick_size (bob_instrument book)))"

definition check_liquidity :: "BacktestOrderBook \<Rightarrow> CoreOrder \<Rightarrow> bool \<times> decimal" where
  "check_liquidity book order =
     (case bob_snapshot book of
        None \<Rightarrow> (True, co_quantity order)
      | Some snapshot \<Rightarrow>
          (let total_liquidity =
                 (if co_side order = BUY then sum_list (map lvl_size (snap_asks snapshot))
                  else sum_list (map lvl_size (snap_bids snapshot)))
           in (total_liquidity \<ge> co_quantity order, min total_liquidity (co_quantity order))))"

record CoreBacktestEngine =
  bt_config :: CoreBacktestConfig
  bt_current_time :: timestamp
  bt_capital :: decimal
  bt_positions :: "(string \<times> Position) list"
  bt_order_books :: "(string \<times> BacktestOrderBook) list"
  bt_pending_orders :: "CoreOrder list"
  bt_filled_orders :: "CoreOrder list"
  bt_fills :: "CoreFill list"
  bt_trade_pnls :: "decimal list"
  bt_total_slippage :: decimal
  bt_total_impact :: decimal
  bt_total_fees :: decimal
  bt_market_prices :: "(string \<times> decimal) list"
  bt_daily_volumes :: "(string \<times> decimal) list"

definition update_position :: "CoreBacktestEngine \<Rightarrow> CoreFill \<Rightarrow> CoreBacktestEngine" where
  "update_position eng fill =
     (let sym = symbol (cf_instrument fill);
          position = dict_get (bt_positions eng) sym
                       \<lparr>pos_instrument = cf_instrument fill, pos_quantity = 0,
                        pos_avg_entry_price = 0, pos_realized_pnl = 0,
                        pos_unrealized_pnl = 0, pos_total_pnl = 0\<rparr>;
          trade_cost = cf_quantity fill * cf_price fill + cf_commission fill
      in if cf_side fill = BUY then
           (let new_qty = pos_quantity position + cf_quantity fill;
                position1 =
                  (if new_qty \<noteq> 0
                   then position\<lparr>pos_avg_entry_price :=
                          (pos_avg_entry_price position * pos_quantity position
                             + cf_price fill * cf_quantity fill) / new_qty\<rparr>
                   else position)
            in eng\<lparr>bt_positions :=
                     AList.update sym (position1\<lparr>pos_quantity := new_qty\<rparr>) (bt_positions eng),
                   bt_capital := bt_capital eng - trade_cost\<rparr>)
         else
           (if pos_quantity position > 0 then
              (let closed_qty = min (cf_quantity fill) (pos_quantity position);
                   pnl = (cf_price fill - pos_avg_entry_price position) * closed_qty
                           - cf_commission fill
               in eng\<lparr>bt_positions :=
                        AList.update sym
                          (position\<lparr>pos_realized_pnl := pos_realized_pnl position + pnl,
                                    pos_quantity := pos_quantity position - cf_quantity fill\<rparr>)
                          (bt_positions eng),
                      bt_trade_pnls := bt_trade_pnls eng @ [pnl],
                      bt_capital := bt_capital eng + pnl + trade_cost\<rparr>)
            else
              eng\<lparr>bt_positions :=
                    AList.update sym
                      (position\<lparr>pos_quantity := pos_quantity position - cf_quantity fill\<rparr>)
                      (bt_positions eng),
                  bt_capital := bt_capital eng + trade_cost\<rparr>))"

text \<open>
  \<open>_execute_order\<close>. Three values come from floating-point or random code and are
  parameters: \<open>u\<close> is the draw of \<open>np.random.random()\<close> (read only when the book cannot
  fill the order), \<open>impact\<close> the result of \<open>MarketImpactModel.calculate_impact\<close> and
  \<open>slip\<close> the result of \<open>SlippageModel.calculate_slippage\<close>. The result is the returned
  flag, the order as the call leaves it, and the engine; \<open>IndexError\<close> is
  \<open>self.config.venues[0]\<close> on an empty venue list.
\<close>

definition execute_order ::
  "CoreBacktestEngine \<Rightarrow> CoreOrder \<Rightarrow> rat \<Rightarrow> decimal \<Rightarrow> decimal
     \<Rightarrow> py_error + (bool \<times> CoreOrder \<times> CoreBacktestEngine)" where
  "execute_order eng order u impact slip =
     (let sym = symbol (co_instrument order);
          current_price = dict_get (bt_market_prices eng) sym 100;
          ob_key = sym @ ''_'' @ (case co_venue order of None \<Rightarrow> ''default''
                                   | Some v \<Rightarrow> venue_id v);
          order_book = map_of (bt_order_books eng) ob_key;
          fill_qty =
            (case order_book of
               None \<Rightarrow> co_quantity order
             | Some book \<Rightarrow>
                 if enable_partial_fills (bt_config eng) then
                   (case check_liquidity book order of (can_fill, available_qty) \<Rightarrow>
                      if \<not> can_fill then
                        (if u < partial_fill_probability (bt_config eng) then available_qty
                         else co_quantity order)
                      else co_quantity order)
                 else co_quantity order);
          market_impact = (if enable_market_impact (bt_config eng) then impact else 0);
          slippage = (if enable_slippage (bt_config eng) then slip else 0);
          execution_price =
            (case order_book of
               Some book \<Rightarrow> get_execution_price book order market_impact slippage
             | None \<Rightarrow>
                 if co_side order = BUY then current_price + market_impact + slippage
                 else current_price - market_impact - slippage)
      in case (case co_venue order of
                 Some v \<Rightarrow> Some v
               | None \<Rightarrow> (case cfg_venues (bt_config eng) of [] \<Rightarrow> None | v # _ \<Rightarrow> Some v)) of
           None \<Rightarrow> Inl IndexError
         | Some venue \<Rightarrow>
             (let fee = (if enable_fees (bt_config eng)
                         then execution_price * fill_qty * taker_fee venue else 0);
                  fill = \<lparr>cf_order_id = co_order_id order, cf_instrument = co_instrument order,
                          cf_side = co_side order, cf_quantity = fill_qty,
                          cf_price = execution_price, cf_venue = venue,
                          cf_commission = fee, cf_timestamp = bt_current_time eng\<rparr>;
                  filled = co_filled_quantity order + fill_qty;
                  order' = order\<lparr>co_filled_quantity := filled,
                                 co_avg_fill_price := execution_price,
                                 co_status := (if filled \<ge> co_quantity order then CORE_FILLED
                                               else PARTIALLY_FILLED)\<rparr>;
                  eng1 = eng\<lparr>bt_total_impact := bt_total_impact eng + market_impact,
                             bt_total_slippage := bt_total_slippage eng + slippage,
                             bt_total_fees := bt_total_fees eng + fee,
                             bt_fills := bt_fills eng @ [fill],
                             bt_filled_orders :=
                               (if filled \<ge> co_quantity order
                                then bt_filled_orders eng @ [order']
                                else bt_filled_orders eng)\<rparr>
              in Inr (co_status order' = CORE_FILLED, order', update_position eng1 fill)))"

text \<open>
  The size-weighted mean of a list of fills, as the spec words the invariant of
  \<open>avg_fill_price\<close>.
\<close>

definition size_weighted_mean :: "(decimal \<times> decimal) list \<Rightarrow> decimal" where
  "size_weighted_mean fills =
     sum_list (map (\<lambda>(price, qty). price * qty) fills) / sum_list (map snd fills)"

section \<open>hft\_system/risk/manager.py: the unified risk manager\<close>

record CoreRiskLimits =
  crl_max_position_size :: decimal
  crl_max_order_size :: decimal
  crl_max_daily_loss :: decimal
  crl_max_daily_volume :: decimal
  crl_max_open_orders :: int
  crl_max_order_value :: decimal
  crl_min_order_value :: decimal

datatype RiskViolationType =
    FAT_FINGER | POSITION_LIMIT | ORDER_SIZE_LIMIT | DAILY_LOSS_LIMIT | DAILY_VOLUME_LIMIT
  | ORDER_VALUE_LIMIT | MAX_OPEN_ORDERS | INVALID_PRICE | SELF_TRADE

text \<open>The f-string descriptions of the violations, as constructors over their numbers.\<close>

datatype description =
    OrderValueExceedsFatFinger decimal decimal
  | OrderPriceDeviates decimal decimal decimal
  | OrderSizeExceedsLimit decimal decimal
  | OrderValueExceedsMax decimal decimal
  | OrderValueBelowMin decimal decimal
  | PositionWouldExceed decimal decimal
  | DailyLossExceedsLimit decimal decimal
  | DailyVolumeWouldExceed decimal decimal
  | OpenOrdersAtLimit nat int
  | InvalidPrice decimal
  | PriceOutsideRange decimal decimal decimal
  | WouldSelfTrade string
  | TradingIsHalted

record RiskViolation =
  violation_type :: RiskViolationType
  violation_description :: description
  violation_order :: "CoreOrder option"
  violation_timestamp :: timestamp
  severity :: string

record PreTradeRiskManager =
  pt_limits :: CoreRiskLimits
  violation_history :: "RiskViolation list"
  rejection_count :: int

text \<open>
  \<open>_record_violation\<close> (the optional \<open>on_violation\<close> callback is unset after
  construction), and the common tail of every failing check: build the violation at the
  clock value \<open>now\<close>, record it, return it.
\<close>

definition record_violation :: "PreTradeRiskManager \<Rightarrow> RiskViolation \<Rightarrow> PreTradeRiskManager" where
  "record_violation pt violation =
     pt\<lparr>violation_history := violation_history pt @ [violation],
        rejection_count := rejection_count pt + 1\<rparr>"

definition violate ::
  "PreTradeRiskManager \<Rightarrow> timestamp \<Rightarrow> RiskViolationType \<Rightarrow> description \<Rightarrow> CoreOrder option
     \<Rightarrow> string \<Rightarrow> RiskViolation option \<times> PreTradeRiskManager" where
  "violate pt now vt descr order sev =
     (let violation = \<lparr>violation_type = vt, violation_description = descr,
                       violation_order = order, violation_timestamp = now, severity = sev\<rparr>
      in (Some violation, record_violation pt violation))"

text \<open>
  \<open>_check_fat_finger\<close>, in \<open>Decimal\<close> arithmetic: each product, difference and quotient
  is rounded to 28 digits. \<open>if order.price:\<close> skips a missing price and a price of zero.
\<close>

definition pt_check_fat_finger ::
  "PreTradeRiskManager \<Rightarrow> timestamp \<Rightarrow> CoreOrder \<Rightarrow> decimal
     \<Rightarrow> py_error + (RiskViolation option \<times> PreTradeRiskManager)" where
  "pt_check_fat_finger pt now order current_price =
     (let order_value = decimal_round (co_quantity order * current_price);
          fat_finger_threshold = decimal_round (crl_max_order_value (pt_limits pt) * 10)
      in if order_value > fat_finger_threshold
         then Inr (violate pt now FAT_FINGER
                     (OrderValueExceedsFatFinger order_value fat_finger_threshold)
                     (Some order) ''CRITICAL'')
         else
           (case co_price order of
              None \<Rightarrow> Inr (None, pt)
            | Some price \<Rightarrow>
                if price = 0 then Inr (None, pt)
                else if current_price = 0 then Inl ZeroDivisionError
                else
                  (let price_deviation =
                         decimal_round (\<bar>decimal_round (price - current_price)\<bar> / current_price)
                   in if price_deviation > 5 / 100
                      then Inr (violate pt now FAT_FINGER
                                  (OrderPriceDeviates price price_deviation current_price)
                                  (Some order) ''HIGH'')
                      else Inr (None, pt))))"

definition pt_check_order_size ::
  "PreTradeRiskManager \<Rightarrow> timestamp \<Rightarrow> CoreOrder \<Rightarrow> RiskViolation option \<times> PreTradeRiskManager" where
  "pt_check_order_size pt now order =
     (if co_quantity order > crl_max_order_size (pt_limits pt)
      then violate pt now ORDER_SIZE_LIMIT
             (OrderSizeExceedsLimit (co_quantity order) (crl_max_order_size (pt_limits pt)))
             (Some order) ''HIGH''
      else (None, pt))"

definition pt_check_order_value ::
  "PreTradeRiskManager \<Rightarrow> timestamp \<Rightarrow> CoreOrder \<Rightarrow> decimal
     \<Rightarrow> RiskViolation option \<times> PreTradeRiskManager" where
  "pt_check_order_value pt now order current_price =
     (let order_value = co_quantity order * current_price
      in if order_value > crl_max_order_value (pt_limits pt)
         then violate pt now ORDER_VALUE_LIMIT
                (OrderValueExceedsMax order_value (crl_max_order_value (pt_limits pt)))
                (Some order) ''HIGH''
         else if order_value < crl_min_order_value (pt_limits pt)
         then violate pt now ORDER_VALUE_LIMIT
                (OrderValueBelowMin order_value (crl_min_order_value (pt_limits pt)))
                (Some order) ''LOW''
         else (None, pt))"

definition pt_check_position_limit ::
  "PreTradeRiskManager \<Rightarrow> timestamp \<Rightarrow> CoreOrder \<Rightarrow> (string \<times> Position) list
     \<Rightarrow> RiskViolation option \<times> PreTradeRiskManager" where
  "pt_check_position_limit pt now order current_positions =
     (let current_quantity =
            (case map_of current_positions (symbol (co_instrument order)) of
               None \<Rightarrow> 0 | Some position \<Rightarrow> pos_quantity position);
          new_position = (if co_side order = BUY then current_quantity + co_quantity order
                          else current_quantity - co_quantity order)
      in if \<bar>new_position\<bar> > crl_max_position_size (pt_limits pt)
         then violate pt now POSITION_LIMIT
                (PositionWouldExceed new_position (crl_max_position_size (pt_limits pt)))
                (Some order) ''HIGH''
         else (None, pt))"

definition pt_check_daily_loss ::
  "PreTradeRiskManager \<Rightarrow> timestamp \<Rightarrow> CoreOrder \<Rightarrow> decimal
     \<Rightarrow> RiskViolation option \<times> PreTradeRiskManager" where
  "pt_check_daily_loss pt now order pnl =
     (if pnl < - crl_max_daily_loss (pt_limits pt)
      then violate pt now DAILY_LOSS_LIMIT
             (DailyLossExceedsLimit (- pnl) (crl_max_daily_loss (pt_limits pt)))
             (Some order) ''CRITICAL''
      else (None, pt))"

definition pt_check_daily_volume ::
  "PreTradeRiskManager \<Rightarrow> timestamp \<Rightarrow> CoreOrder \<Rightarrow> decimal \<Rightarrow> decimal
     \<Rightarrow> RiskViolation option \<times> PreTradeRiskManager" where
  "pt_check_daily_volume pt now order volume current_price =
     (let order_volume = co_quantity order * current_price;
          total_volume = volume + order_volume
      in if total_volume > crl_max_daily_volume (pt_limits pt)
         then violate pt now DAILY_VOLUME_LIMIT
                (DailyVolumeWouldExceed total_volume (crl_max_daily_volume (pt_limits pt)))
                (Some order) ''MEDIUM''
         else (None, pt))"

definition pt_check_max_open_orders ::
  "PreTradeRiskManager \<Rightarrow> timestamp \<Rightarrow> CoreOrder list
     \<Rightarrow> RiskViolation option \<times> PreTradeRiskManager" where
  "pt_check_max_open_orders pt now open_orders =
     (if int (length open_orders) \<ge> crl_max_open_orders (pt_limits pt)
      then violate pt now MAX_OPEN_ORDERS
             (OpenOrdersAtLimit (length open_orders) (crl_max_open_orders (pt_limits pt)))
             None ''MEDIUM''
      else (None, pt))"

definition pt_check_price_validity ::
  "PreTradeRiskManager \<Rightarrow> timestamp \<Rightarrow> CoreOrder \<Rightarrow> decimal
     \<Rightarrow> RiskViolation option \<times> PreTradeRiskManager" where
  "pt_check_price_validity pt now order current_price =
     (case co_price order of
        None \<Rightarrow> (None, pt)
      | Some price \<Rightarrow>
          if price = 0 then (None, pt)
          else if price \<le> 0
          then violate pt now INVALID_PRICE (InvalidPrice price) (Some order) ''CRITICAL''
          else
            (let max_deviation = 50 / 100;
                 lower_bound = current_price * (1 - max_deviation);
                 upper_bound = current_price * (1 + max_deviation)
             in if price < lower_bound \<or> price > upper_bound
                then violate pt now INVALID_PRICE
                       (PriceOutsideRange price lower_bound upper_bound) (Some order) ''HIGH''
                else (None, pt)))"

text \<open>\<open>_check_self_trade\<close>: the loop over the open orders, first crossing order wins.\<close>

fun pt_check_self_trade ::
  "PreTradeRiskManager \<Rightarrow> timestamp \<Rightarrow> CoreOrder \<Rightarrow> CoreOrder list
     \<Rightarrow> RiskViolation option \<times> PreTradeRiskManager" where
  "pt_check_self_trade pt now order [] = (None, pt)"
| "pt_check_self_trade pt now order (open_order # rest) =
     (if symbol (co_instrument open_order) \<noteq> symbol (co_instrument order)
      then pt_check_self_trade pt now order rest
      else if co_side open_order = co_side order
      then pt_check_self_trade pt now order rest
      else
        (case (co_price order, co_price open_order) of
           (Some price, Some open_price) \<Rightarrow>
             if price \<noteq> 0 \<and> open_price \<noteq> 0
                \<and> ((co_side order = BUY \<and> price \<ge> open_price)
                     \<or> (co_side order = SELL \<and> price \<le> open_price))
             then violate pt now SELF_TRADE (WouldSelfTrade (co_order_id open_order))
                    (Some order) ''MEDIUM''
             else pt_check_self_trade pt now order rest
         | _ \<Rightarrow> pt_check_self_trade pt now order rest))"

text \<open>
  \<open>PreTradeRiskManager.check_order\<close>: the nine checks in order; the first violation
  returns \<open>(False, violation)\<close>.
\<close>

definition pt_check_order ::
  "PreTradeRiskManager \<Rightarrow> timestamp \<Rightarrow> CoreOrder \<Rightarrow> (string \<times> Position) list
     \<Rightarrow> CoreOrder list \<Rightarrow> decimal \<Rightarrow> decimal \<Rightarrow> decimal
     \<Rightarrow> py_error + ((bool \<times> RiskViolation option) \<times> PreTradeRiskManager)" where
  "pt_check_order pt now order current_positions open_orders pnl volume current_price =
     (case pt_check_fat_finger pt now order current_price of
        Inl e \<Rightarrow> Inl e
      | Inr (Some v, pt') \<Rightarrow> Inr ((False, Some v), pt')
      | Inr (None, _) \<Rightarrow>
     (case pt_check_order_size pt now order of
        (Some v, pt') \<Rightarrow> Inr ((False, Some v), pt')
      | (None, _) \<Rightarrow>
     (case pt_check_order_value pt now order current_price of
        (Some v, pt') \<Rightarrow> Inr ((False, Some v), pt')
      | (None, _) \<Rightarrow>
     (case pt_check_position_limit pt now order current_positions of
        (Some v, pt') \<Rightarrow> Inr ((False, Some v), pt')
      | (None, _) \<Rightarrow>
     (case pt_check_daily_loss pt now order pnl of
        (Some v, pt') \<Rightarrow> Inr ((False, Some v), pt')
      | (None, _) \<Rightarrow>
     (case pt_check_daily_volume pt now order volume current_price of
        (Some v, pt') \<Rightarrow> Inr ((False, Some v), pt')
      | (None, _) \<Rightarrow>
     (case pt_check_max_open_orders pt now open_orders of
        (Some v, pt') \<Rightarrow> Inr ((False, Some v), pt')
      | (None, _) \<Rightarrow>
     (case pt_check_price_validity pt now order current_price of
        (Some v, pt') \<Rightarrow> Inr ((False, Some v), pt')
      | (None, _) \<Rightarrow>
     (case pt_check_self_trade pt now order open_orders of
        (Some v, pt') \<Rightarrow> Inr ((False, Some v), pt')
      | (None, _) \<Rightarrow> Inr ((True, None), pt))))))))))"

record PostTradeRiskMonitor =
  ptm_limits :: CoreRiskLimits
  ptm_positions :: "(string \<times> Position) list"
  ptm_daily_pnl :: decimal
  ptm_daily_volume :: decimal
  session_start :: timestamp
  loss_alert_threshold :: decimal

text \<open>
  \<open>_check_risk_breaches\<close> changes nothing in the monitor; what it does is call back. The
  alert callback is unset after construction; the emergency-stop callback is wired to the
  manager's \<open>_handle_emergency_stop\<close>, and this is the condition under which it fires.
\<close>

definition emergency_stop_fires :: "PostTradeRiskMonitor \<Rightarrow> bool" where
  "emergency_stop_fires ptm = (ptm_daily_pnl ptm < - crl_max_daily_loss (ptm_limits ptm))"

definition update_position_monitor :: "PostTradeRiskMonitor \<Rightarrow> CoreFill \<Rightarrow> PostTradeRiskMonitor" where
  "update_position_monitor ptm fill =
     (let sym = symbol (cf_instrument fill);
          position = dict_get (ptm_positions ptm) sym
                       \<lparr>pos_instrument = cf_instrument fill, pos_quantity = 0,
                        pos_avg_entry_price = 0, pos_realized_pnl = 0,
                        pos_unrealized_pnl = 0, pos_total_pnl = 0\<rparr>;
          ptm1 =
            (if cf_side fill = BUY then
               (let new_qty = pos_quantity position + cf_quantity fill;
                    position1 =
                      (if new_qty \<noteq> 0
                       then position\<lparr>pos_avg_entry_price :=
                              (pos_avg_entry_price position * pos_quantity position
                                 + cf_price fill * cf_quantity fill) / new_qty\<rparr>
                       else position)
                in ptm\<lparr>ptm_positions :=
                         AList.update sym (position1\<lparr>pos_quantity := new_qty\<rparr>)
                           (ptm_positions ptm)\<rparr>)
             else
               (if pos_quantity position > 0 then
                  (let realized_pnl = (cf_price fill - pos_avg_entry_price position)
                                        * cf_quantity fill
                   in ptm\<lparr>ptm_positions :=
                            AList.update sym
                              (position\<lparr>pos_realized_pnl := pos_realized_pnl position + realized_pnl,
                                        pos_quantity := pos_quantity position - cf_quantity fill\<rparr>)
                              (ptm_positions ptm),
                          ptm_daily_pnl := ptm_daily_pnl ptm + realized_pnl\<rparr>)
                else
                  ptm\<lparr>ptm_positions :=
                        AList.update sym
                          (position\<lparr>pos_quantity := pos_quantity position - cf_quantity fill\<rparr>)
                          (ptm_positions ptm)\<rparr>))
      in ptm1\<lparr>ptm_daily_volume := ptm_daily_volume ptm1 + cf_quantity fill * cf_price fill\<rparr>)"

definition update_market_prices ::
  "PostTradeRiskMonitor \<Rightarrow> (string \<times> decimal) list \<Rightarrow> PostTradeRiskMonitor" where
  "update_market_prices ptm prices =
     (let marked =
            map (\<lambda>(sym, position).
                   (sym,
                    (case map_of prices sym of
                       None \<Rightarrow> position
                     | Some current_price \<Rightarrow>
                         if pos_quantity position \<noteq> 0 then
                           (let unrealized = (current_price - pos_avg_entry_price position)
                                               * pos_quantity position
                            in position\<lparr>pos_unrealized_pnl := unrealized,
                                         pos_total_pnl := pos_realized_pnl position + unrealized\<rparr>)
                         else position)))
                (ptm_positions ptm);
          total_unrealized = sum_list (map (\<lambda>(sym, p). pos_unrealized_pnl p) marked)
      in ptm\<lparr>ptm_positions := marked,
             ptm_daily_pnl := sum_list (map (\<lambda>(sym, p). pos_realized_pnl p) marked)
                                + total_unrealized\<rparr>)"

definition monitor_reset_daily_metrics :: "PostTradeRiskMonitor \<Rightarrow> timestamp \<Rightarrow> PostTradeRiskMonitor" where
  "monitor_reset_daily_metrics ptm now =
     ptm\<lparr>ptm_daily_pnl := 0, ptm_daily_volume := 0, session_start := now,
         ptm_positions := map (\<lambda>(sym, p). (sym, p\<lparr>pos_realized_pnl := 0\<rparr>)) (ptm_positions ptm)\<rparr>"

record CoreRiskManager =
  crm_pre_trade :: PreTradeRiskManager
  crm_post_trade :: PostTradeRiskMonitor
  crm_is_trading_halted :: bool

definition CoreRiskManager_init :: "CoreRiskLimits \<Rightarrow> timestamp \<Rightarrow> CoreRiskManager" where
  "CoreRiskManager_init risk_limits now =
     \<lparr>crm_pre_trade = \<lparr>pt_limits = risk_limits, violation_history = [], rejection_count = 0\<rparr>,
      crm_post_trade = \<lparr>ptm_limits = risk_limits, ptm_positions = [], ptm_daily_pnl = 0,
                        ptm_daily_volume = 0, session_start = now,
                        loss_alert_threshold = crl_max_daily_loss risk_limits * (75 / 100)\<rparr>,
      crm_is_trading_halted = False\<rparr>"

text \<open>
  \<open>RiskManager.check_order\<close>: when halted, a violation is built and returned without
  being recorded; otherwise the pre-trade manager decides, with an empty open-order list.
\<close>

definition check_order ::
  "CoreRiskManager \<Rightarrow> timestamp \<Rightarrow> CoreOrder \<Rightarrow> decimal
     \<Rightarrow> py_error + ((bool \<times> RiskViolation option) \<times> CoreRiskManager)" where
  "check_order crm now order current_price =
     (if crm_is_trading_halted crm
      then Inr ((False,
                 Some \<lparr>violation_type = DAILY_LOSS_LIMIT, violation_description = TradingIsHalted,
                       violation_order = Some order, violation_timestamp = now,
                       severity = ''CRITICAL''\<rparr>), crm)
      else
        (case pt_check_order (crm_pre_trade crm) now order
                (ptm_positions (crm_post_trade crm)) []
                (ptm_daily_pnl (crm_post_trade crm)) (ptm_daily_volume (crm_post_trade crm))
                current_price of
           Inl e \<Rightarrow> Inl e
         | Inr (verdict, pt') \<Rightarrow> Inr (verdict, crm\<lparr>crm_pre_trade := pt'\<rparr>)))"

definition handle_emergency_stop :: "CoreRiskManager \<Rightarrow> CoreRiskManager" where
  "handle_emergency_stop crm = crm\<lparr>crm_is_trading_halted := True\<rparr>"

definition after_post_trade :: "CoreRiskManager \<Rightarrow> PostTradeRiskMonitor \<Rightarrow> CoreRiskManager" where
  "after_post_trade crm ptm =
     (let crm1 = crm\<lparr>crm_post_trade := ptm\<rparr>
      in if emergency_stop_fires ptm then handle_emergency_stop crm1 else crm1)"

definition core_on_fill :: "CoreRiskManager \<Rightarrow> CoreFill \<Rightarrow> CoreRiskManager" where
  "core_on_fill crm fill = after_post_trade crm (update_position_monitor (crm_post_trade crm) fill)"

definition update_market_data :: "CoreRiskManager \<Rightarrow> (string \<times> decimal) list \<Rightarrow> CoreRiskManager" where
  "update_market_data crm prices =
     after_post_trade crm (update_market_prices (crm_post_trade crm) prices)"

definition resume_trading :: "CoreRiskManager \<Rightarrow> CoreRiskManager" where
  "resume_trading crm = crm\<lparr>crm_is_trading_halted := False\<rparr>"

section \<open>hft\_system/execution/trailing\_stop.py: the trailing stop manager\<close>

text \<open>
  The config and the stop record carry the fields the code reads or writes; the callbacks
  of the manager are unset after construction.
\<close>

datatype TrailingType = FIXED_DISTANCE | PERCENTAGE | ATR_BASED | VOLATILITY_ADJUSTED | STEP_TRAIL

datatype TrailingMode = IMMEDIATE | PROFIT_THRESHOLD | BREAKEVEN_PLUS

record TrailingStopConfig =
  trailing_type :: TrailingType
  trailing_mode :: TrailingMode
  trailing_distance :: decimal
  trailing_distance_pips :: decimal
  activation_profit_pct :: decimal
  breakeven_buffer_pct :: decimal
  step_size :: decimal
  step_interval :: decimal
  min_profit_lock :: decimal
  max_trailing_distance :: decimal

record TrailingStop =
  ts_position_id :: string
  ts_instrument :: Instrument
  ts_side :: Side
  ts_entry_price :: decimal
  ts_quantity :: decimal
  current_stop_price :: decimal
  highest_price :: decimal
  lowest_price :: decimal
  ts_config :: TrailingStopConfig
  is_active :: bool
  activation_time :: "timestamp option"
  last_adjustment_time :: timestamp
  adjustment_count :: int
  max_profit_pct :: decimal
  current_profit_pct :: decimal
  protected_profit_pct :: decimal

record TrailingStopManager =
  default_config :: TrailingStopConfig
  trailing_stops :: "(string \<times> TrailingStop) list"
  total_adjustments :: int
  total_stops_triggered :: int
  total_profit_protected :: decimal
  submitted_close_orders :: "CoreOrder list"

text \<open>
  Division of two \<open>Decimal\<close>s raises \<open>DivisionByZero\<close> (a \<open>ZeroDivisionError\<close>) on a
  zero divisor, and \<open>InvalidOperation\<close> for 0 / 0. \<open>int(x)\<close> truncates towards zero.
\<close>

definition decimal_div :: "decimal \<Rightarrow> decimal \<Rightarrow> py_error + decimal" where
  "decimal_div a b =
     (if b = 0 then (if a = 0 then Inl InvalidOperation else Inl ZeroDivisionError)
      else Inr (a / b))"

definition py_int :: "rat \<Rightarrow> int" where
  "py_int x = (if x \<ge> 0 then \<lfloor>x\<rfloor> else \<lceil>x\<rceil>)"

text \<open>The profit fraction that \<open>update_price\<close> and \<open>_check_activation\<close> compute.\<close>

definition profit_of :: "TrailingStop \<Rightarrow> decimal \<Rightarrow> py_error + decimal" where
  "profit_of ts price =
     (if ts_side ts = BUY then decimal_div (price - ts_entry_price ts) (ts_entry_price ts)
      else decimal_div (ts_entry_price ts - price) (ts_entry_price ts))"

text \<open>
  \<open>add_position\<close>; \<open>now\<close> is the clock. \<open>_calculate_new_stop\<close> falls through to the
  percentage rule for \<open>ATR_BASED\<close>. \<open>_adjust_trailing_stop\<close> returns the flag (or the
  exception) and the stop record as the call leaves it.
\<close>

definition add_position ::
  "TrailingStopManager \<Rightarrow> timestamp \<Rightarrow> string \<Rightarrow> Instrument \<Rightarrow> Side \<Rightarrow> decimal \<Rightarrow> decimal
     \<Rightarrow> TrailingStopConfig option \<Rightarrow> TrailingStop \<times> TrailingStopManager" where
  "add_position m now position_id instrument side entry_price quantity config_opt =
     (let config = (case config_opt of None \<Rightarrow> default_config m | Some c \<Rightarrow> c);
          trailing_stop =
            \<lparr>ts_position_id = position_id, ts_instrument = instrument, ts_side = side,
             ts_entry_price = entry_price, ts_quantity = quantity,
             current_stop_price =
               (if side = BUY then entry_price * (1 - trailing_distance config)
                else entry_price * (1 + trailing_distance config)),
             highest_price = (if side = BUY then entry_price else 0),
             lowest_price = (if side = BUY then 0 else entry_price),
             ts_config = config,
             is_active = (trailing_mode config = IMMEDIATE),
             activation_time = (if trailing_mode config = IMMEDIATE then Some now else None),
             last_adjustment_time = now, adjustment_count = 0,
             max_profit_pct = 0, current_profit_pct = 0, protected_profit_pct = 0\<rparr>
      in (trailing_stop,
          m\<lparr>trailing_stops := AList.update position_id trailing_stop (trailing_stops m)\<rparr>))"

definition check_activation :: "TrailingStop \<Rightarrow> decimal \<Rightarrow> py_error + bool" where
  "check_activation ts current_price =
     (let config = ts_config ts
      in if trailing_mode config = IMMEDIATE then Inr True
         else if trailing_mode config = PROFIT_THRESHOLD then
           (case profit_of ts current_price of
              Inl e \<Rightarrow> Inl e
            | Inr profit_pct \<Rightarrow> Inr (profit_pct \<ge> activation_profit_pct config))
         else
           (if ts_side ts = BUY
            then Inr (current_price \<ge> ts_entry_price ts * (1 + breakeven_buffer_pct config))
            else Inr (current_price \<le> ts_entry_price ts * (1 - breakeven_buffer_pct config))))"

definition calculate_new_stop :: "TrailingStop \<Rightarrow> decimal \<Rightarrow> py_error + decimal" where
  "calculate_new_stop ts current_price =
     (let config = ts_config ts
      in if trailing_type config = FIXED_DISTANCE then
           (if ts_side ts = BUY then Inr (highest_price ts - trailing_distance_pips config)
            else Inr (lowest_price ts + trailing_distance_pips config))
         else if trailing_type config = PERCENTAGE then
           (if ts_side ts = BUY then Inr (highest_price ts * (1 - trailing_distance config))
            else Inr (lowest_price ts * (1 + trailing_distance config)))
         else if trailing_type config = STEP_TRAIL then
           (case (if ts_side ts = BUY
                  then decimal_div (highest_price ts - ts_entry_price ts) (ts_entry_price ts)
                  else decimal_div (ts_entry_price ts - lowest_price ts) (ts_entry_price ts)) of
              Inl e \<Rightarrow> Inl e
            | Inr profit_pct \<Rightarrow>
                (case decimal_div profit_pct (step_interval config) of
                   Inl e \<Rightarrow> Inl e
                 | Inr ratio \<Rightarrow>
                     (let steps = of_int (py_int ratio)
                      in if ts_side ts = BUY
                         then Inr (ts_entry_price ts
                                     + steps * step_size config * ts_entry_price ts)
                         else Inr (ts_entry_price ts
                                     - steps * step_size config * ts_entry_price ts))))
         else if trailing_type config = VOLATILITY_ADJUSTED then
           (let base_distance = trailing_distance config;
                profit_pct = \<bar>current_profit_pct ts\<bar>;
                adjusted = (if profit_pct > 5 / 100 then base_distance * (7 / 10)
                            else if profit_pct > 2 / 100 then base_distance * (85 / 100)
                            else base_distance);
                adjusted_distance = min adjusted (max_trailing_distance config)
            in if ts_side ts = BUY then Inr (highest_price ts * (1 - adjusted_distance))
               else Inr (lowest_price ts * (1 + adjusted_distance)))
         else
           (if ts_side ts = BUY then Inr (highest_price ts * (1 - trailing_distance config))
            else Inr (lowest_price ts * (1 + trailing_distance config))))"

definition adjust_trailing_stop ::
  "TrailingStop \<Rightarrow> timestamp \<Rightarrow> decimal \<Rightarrow> (py_error + bool) \<times> TrailingStop" where
  "adjust_trailing_stop ts now current_price =
     (case calculate_new_stop ts current_price of
        Inl e \<Rightarrow> (Inl e, ts)
      | Inr new_stop \<Rightarrow>
          if ts_side ts = BUY then
            (if new_stop > current_stop_price ts then
               (let ts1 = ts\<lparr>current_stop_price := new_stop, last_adjustment_time := now,
                             adjustment_count := adjustment_count ts + 1\<rparr>
                in case decimal_div (new_stop - ts_entry_price ts) (ts_entry_price ts) of
                     Inl e \<Rightarrow> (Inl e, ts1)
                   | Inr protected_profit \<Rightarrow>
                       (Inr True,
                        ts1\<lparr>protected_profit_pct :=
                              max (protected_profit_pct ts1) protected_profit\<rparr>))
             else (Inr False, ts))
          else
            (if new_stop < current_stop_price ts then
               (let ts1 = ts\<lparr>current_stop_price := new_stop, last_adjustment_time := now,
                             adjustment_count := adjustment_count ts + 1\<rparr>
                in case decimal_div (ts_entry_price ts - new_stop) (ts_entry_price ts) of
                     Inl e \<Rightarrow> (Inl e, ts1)
                   | Inr protected_profit \<Rightarrow>
                       (Inr True,
                        ts1\<lparr>protected_profit_pct :=
                              max (protected_profit_pct ts1) protected_profit\<rparr>))
             else (Inr False, ts)))"

definition check_stop_triggered :: "TrailingStop \<Rightarrow> decimal \<Rightarrow> bool" where
  "check_stop_triggered ts current_price =
     (if \<not> is_active ts then False
      else if ts_side ts = BUY then current_price \<le> current_stop_price ts
      else current_price \<ge> current_stop_price ts)"

text \<open>
  \<open>_trigger_stop\<close>: the close order handed to the execution engine is appended to
  \<open>submitted_close_orders\<close>; \<open>del self.trailing_stops[...]\<close> raises \<open>KeyError\<close> when
  the record's own \<open>position_id\<close> is not a key.
\<close>

definition trigger_stop ::
  "TrailingStopManager \<Rightarrow> TrailingStop \<Rightarrow> decimal \<Rightarrow> (py_error + unit) \<times> TrailingStopManager" where
  "trigger_stop m ts current_price =
     (let close_order =
            \<lparr>co_order_id = [], co_instrument = ts_instrument ts,
             co_side = (if ts_side ts = BUY then SELL else BUY), co_order_type = CORE_MARKET,
             co_quantity = ts_quantity ts, co_price = None, co_status = PENDING_NEW,
             co_venue = None, co_filled_quantity = 0, co_avg_fill_price = 0,
             co_submitted_at = None\<rparr>;
          m1 = m\<lparr>submitted_close_orders := submitted_close_orders m @ [close_order],
                 total_stops_triggered := total_stops_triggered m + 1,
                 total_profit_protected := total_profit_protected m + protected_profit_pct ts\<rparr>
      in case map_of (trailing_stops m1) (ts_position_id ts) of
           None \<Rightarrow> (Inl KeyError, m1)
         | Some _ \<Rightarrow>
             (Inr (),
              m1\<lparr>trailing_stops := AList.delete (ts_position_id ts) (trailing_stops m1)\<rparr>))"

definition store_stop :: "TrailingStopManager \<Rightarrow> string \<Rightarrow> TrailingStop \<Rightarrow> TrailingStopManager" where
  "store_stop m position_id ts = m\<lparr>trailing_stops := AList.update position_id ts (trailing_stops m)\<rparr>"

text \<open>
  \<open>update_price\<close>, in the blocks of its body: the profit fields, the activation, the
  extremes, and the tail that adjusts the stop and checks the trigger. The stop record is
  the object held by the dict, so every change to it is stored under \<open>position_id\<close>, also
  when an exception escapes later.
\<close>

definition note_profit :: "TrailingStop \<Rightarrow> decimal \<Rightarrow> TrailingStop" where
  "note_profit ts profit_pct =
     ts\<lparr>current_profit_pct := profit_pct,
        max_profit_pct := max (max_profit_pct ts) profit_pct\<rparr>"

definition activate :: "TrailingStop \<Rightarrow> timestamp \<Rightarrow> bool \<Rightarrow> TrailingStop" where
  "activate ts now should_activate =
     (if should_activate then ts\<lparr>is_active := True, activation_time := Some now\<rparr> else ts)"

definition track_extremes :: "TrailingStop \<Rightarrow> decimal \<Rightarrow> TrailingStop" where
  "track_extremes ts current_price =
     (if ts_side ts = BUY then
        (if current_price > highest_price ts then ts\<lparr>highest_price := current_price\<rparr> else ts)
      else
        (if lowest_price ts = 0 \<or> current_price < lowest_price ts
         then ts\<lparr>lowest_price := current_price\<rparr> else ts))"

definition adjust_and_check ::
  "TrailingStopManager \<Rightarrow> timestamp \<Rightarrow> string \<Rightarrow> TrailingStop \<Rightarrow> decimal
     \<Rightarrow> (py_error + bool) \<times> TrailingStopManager" where
  "adjust_and_check m now position_id ts current_price =
     (case (if is_active ts then adjust_trailing_stop ts now current_price
            else (Inr False, ts)) of
        (Inl e, ts') \<Rightarrow> (Inl e, store_stop m position_id ts')
      | (Inr adjusted, ts') \<Rightarrow>
          if adjusted
          then (Inr True,
                (store_stop m position_id ts')\<lparr>total_adjustments := total_adjustments m + 1\<rparr>)
          else if check_stop_triggered ts' current_price
          then
            (case trigger_stop (store_stop m position_id ts') ts' current_price of
               (Inl e, m') \<Rightarrow> (Inl e, m')
             | (Inr _, m') \<Rightarrow> (Inr False, m'))
          else (Inr False, store_stop m position_id ts'))"

definition update_price ::
  "TrailingStopManager \<Rightarrow> timestamp \<Rightarrow> string \<Rightarrow> decimal \<Rightarrow> (py_error + bool) \<times> TrailingStopManager" where
  "update_price m now position_id current_price =
     (case map_of (trailing_stops m) position_id of
        None \<Rightarrow> (Inr False, m)
      | Some ts \<Rightarrow>
          (case profit_of ts current_price of
             Inl e \<Rightarrow> (Inl e, m)
           | Inr profit_pct \<Rightarrow>
               (let ts1 = note_profit ts profit_pct
                in case (if is_active ts1 then Inr False
                         else check_activation ts1 current_price) of
                     Inl e \<Rightarrow> (Inl e, store_stop m position_id ts1)
                   | Inr should_activate \<Rightarrow>
                       adjust_and_check m now position_id
                         (track_extremes (activate ts1 now should_activate) current_price)
                         current_price)))"

text \<open>A sequence of \<open>update_price\<close> calls (clock, position, price), exceptions swallowed
  as the monitoring loop does.\<close>

definition run_price_updates ::
  "TrailingStopManager \<Rightarrow> (timestamp \<times> string \<times> decimal) list \<Rightarrow> TrailingStopManager" where
  "run_price_updates m updates =
     foldl (\<lambda>m' (now, position_id, price). snd (update_price m' now position_id price)) m updates"


text \<open>
  The spec's "never regresses" between two states of a stop: the side is the same, a long
  stop is not lower and a short stop is not higher.
\<close>

definition stop_not_regressed :: "TrailingStop \<Rightarrow> TrailingStop \<Rightarrow> bool" where
  "stop_not_regressed before after \<longleftrightarrow>
     ts_side after = ts_side before
     \<and> (if ts_side before = BUY then current_stop_price before \<le> current_stop_price after
        else current_stop_price after \<le> current_stop_price before)"

section \<open>hft-trading-system/core/database/timeseries\_db.py: the tick record format\<close>

text \<open>
  The timestamp of a tick goes through Python floats on its way into the record and back,
  so double-precision rounding (\<open>fl\<close>) is part of what the code computes.
\<close>

text \<open>
  \<open>datetime.timestamp()\<close> of a naive datetime is \<open>seconds + microsecond / 1e6\<close> in
  doubles; \<open>datetime.fromtimestamp(t)\<close> splits \<open>t\<close> into integer and fractional part and
  rounds the fraction times \<open>1e6\<close> half-to-even to microseconds. A datetime is identified
  with its POSIX value, a whole number of microseconds.
\<close>

definition datetime_timestamp :: "timestamp \<Rightarrow> rat" where
  "datetime_timestamp ts =
     (let seconds = \<lfloor>ts\<rfloor>; microsecond = (ts - of_int seconds) * 1000000
      in fl (of_int seconds + fl (microsecond / 1000000)))"

definition datetime_fromtimestamp :: "rat \<Rightarrow> timestamp" where
  "datetime_fromtimestamp t =
     (let intpart = py_int t;
          us = round_half_even (fl ((t - of_int intpart) * 1000000))
      in if us \<ge> 1000000 then of_int (intpart + 1) + of_int (us - 1000000) / 1000000
         else if us < 0 then of_int (intpart - 1) + of_int (us + 1000000) / 1000000
         else of_int intpart + of_int us / 1000000)"

text \<open>
  \<open>_serialize_tick\<close> and \<open>_deserialize_tick\<close>. The record is the four values packed by
  \<open>struct.pack('Qddb', ...)\<close>, which \<open>struct.unpack\<close> gives back unchanged: the unsigned
  64-bit microsecond count (\<open>struct.error\<close> outside its range), price and quantity as
  doubles, and the side byte. The byte layout itself is not modelled. Symbol and trade id
  are not in the record.
\<close>

definition serialize_tick :: "Tick \<Rightarrow> py_error + (int \<times> rat \<times> rat \<times> int)" where
  "serialize_tick tick =
     (let timestamp_us = py_int (fl (datetime_timestamp (t_timestamp tick) * 1000000));
          side_byte = (if t_side tick = ''BUY'' then 0 else 1)
      in if timestamp_us < 0 \<or> timestamp_us \<ge> 2 ^ 64 then Inl StructError
         else Inr (timestamp_us, t_price tick, t_quantity tick, side_byte))"

definition deserialize_tick :: "int \<times> rat \<times> rat \<times> int \<Rightarrow> string \<Rightarrow> Tick" where
  "deserialize_tick data tick_symbol =
     (case data of (timestamp_us, price, quantity, side_byte) \<Rightarrow>
        \<lparr>t_symbol = tick_symbol,
         t_timestamp = datetime_fromtimestamp (fl (of_int timestamp_us / 1000000)),
         t_price = price, t_quantity = quantity,
         t_side = (if side_byte = 0 then ''BUY'' else ''SELL''),
         t_trade_id = []\<rparr>)"

section \<open>Concrete inputs of the scenarios\<close>

text \<open>
  Scenario 1 of the spec on both books. The dict-based book has no \<open>update_bid\<close> /
  \<open>update_ask\<close>; a bid or ask update is an incremental update of that side.
\<close>

definition scenario_updates :: "OrderBookUpdate list" where
  "scenario_updates =
     [\<lparr>upd_timestamp = 1, upd_side = BUY, upd_price = 100, upd_size = 10, upd_action = ''ADD''\<rparr>,
      \<lparr>upd_timestamp = 2, upd_side = BUY, upd_price = 199 / 2, upd_size = 20, upd_action = ''ADD''\<rparr>,
      \<lparr>upd_timestamp = 3, upd_side = SELL, upd_price = 201 / 2, upd_size = 15, upd_action = ''ADD''\<rparr>,
      \<lparr>upd_timestamp = 4, upd_side = SELL, upd_price = 101, upd_size = 25, upd_action = ''ADD''\<rparr>]"

definition scenario_book :: OrderBook where
  "scenario_book = foldl update_incremental (OrderBook_init ''AAPL'' ''NASDAQ'') scenario_updates"

definition scenario_md_book :: MD_OrderBook where
  "scenario_md_book =
     update_ask (update_ask (update_bid (update_bid (MD_OrderBook_init ''AAPL'' 0)
        1 100 10 1) 2 (199 / 2) 20 1) 3 (201 / 2) 15 1) 4 101 25 1"

text \<open>A snapshot whose only bid (101) is above its only ask (100), and one the right way round.\<close>

definition crossed_snapshot :: OrderBookSnapshot where
  "crossed_snapshot =
     \<lparr>snap_symbol = ''AAPL'', snap_venue_id = ''NASDAQ'',
      snap_bids = [\<lparr>lvl_price = 101, lvl_size = 5, lvl_num_orders = 1\<rparr>],
      snap_asks = [\<lparr>lvl_price = 100, lvl_size = 5, lvl_num_orders = 1\<rparr>],
      snap_timestamp = 1, snap_sequence_number = 1\<rparr>"

definition uncrossed_snapshot :: OrderBookSnapshot where
  "uncrossed_snapshot =
     \<lparr>snap_symbol = ''AAPL'', snap_venue_id = ''NASDAQ'',
      snap_bids = [\<lparr>lvl_price = 100, lvl_size = 5, lvl_num_orders = 1\<rparr>,
                   \<lparr>lvl_price = 102, lvl_size = 0, lvl_num_orders = 1\<rparr>],
      snap_asks = [\<lparr>lvl_price = 101, lvl_size = 5, lvl_num_orders = 1\<rparr>],
      snap_timestamp = 1, snap_sequence_number = 1\<rparr>"

definition bid_below_update :: OrderBookUpdate where
  "bid_below_update =
     \<lparr>upd_timestamp = 2, upd_side = BUY, upd_price = 201 / 2, upd_size = 7, upd_action = ''ADD''\<rparr>"

text \<open>
  Sequences of calls on the two risk managers. \<open>gate_op\<close> lists the mutating entry points
  of the risk gate of \<open>risk_manager.py\<close> other than \<open>reset_daily_metrics\<close>;
  \<open>core_gate_op\<close> those of the unified manager of \<open>manager.py\<close> other than
  \<open>resume_trading\<close> (the monitor's own daily reset is among them). An exception of
  \<open>check_order\<close> escapes before anything was recorded, so it leaves the manager as it was.
\<close>

datatype gate_op = PreTradeCheck timestamp Order | OnFill Fill | UpdateReferencePrice string rat

fun apply_gate_op :: "RiskManager \<Rightarrow> gate_op \<Rightarrow> RiskManager" where
  "apply_gate_op rm (PreTradeCheck now order) = snd (pre_trade_check rm now order)"
| "apply_gate_op rm (OnFill fill) = on_fill rm fill"
| "apply_gate_op rm (UpdateReferencePrice name price) = update_reference_price rm name price"

datatype core_gate_op =
    CheckOrder timestamp CoreOrder decimal
  | CoreOnFill CoreFill
  | UpdateMarketData "(string \<times> decimal) list"
  | MonitorResetDailyMetrics timestamp

fun apply_core_gate_op :: "CoreRiskManager \<Rightarrow> core_gate_op \<Rightarrow> CoreRiskManager" where
  "apply_core_gate_op crm (CheckOrder now order current_price) =
     (case check_order crm now order current_price of
        Inl e \<Rightarrow> crm
      | Inr (verdict, crm') \<Rightarrow> crm')"
| "apply_core_gate_op crm (CoreOnFill fill) = core_on_fill crm fill"
| "apply_core_gate_op crm (UpdateMarketData prices) = update_market_data crm prices"
| "apply_core_gate_op crm (MonitorResetDailyMetrics now) =
     crm\<lparr>crm_post_trade := monitor_reset_daily_metrics (crm_post_trade crm) now\<rparr>"

text \<open>
  One order of \<open>active_orders\<close> followed through the tick loop of \<open>run_backtest\<close>: every
  tick of its symbol runs the loop body of \<open>_check_order_fills\<close> on it, and a fill that
  completes the order removes it from \<open>active_orders\<close>. \<open>slippage_at\<close> gives the value of
  \<open>_calculate_slippage\<close> at each tick. The result is the order and its fills in order.
\<close>

fun replay_order ::
  "BacktestConfig \<Rightarrow> (Tick \<Rightarrow> rat) \<Rightarrow> Order \<Rightarrow> Tick list \<Rightarrow> py_error + (Order \<times> Fill list)" where
  "replay_order cfg slippage_at order [] = Inr (order, [])"
| "replay_order cfg slippage_at order (tick # ticks) =
     (if o_symbol order \<noteq> t_symbol tick then replay_order cfg slippage_at order ticks
      else
        (case fill_order cfg (slippage_at tick) order tick of
           Inl e \<Rightarrow> Inl e
         | Inr (order', None) \<Rightarrow> replay_order cfg slippage_at order' ticks
         | Inr (order', Some fill) \<Rightarrow>
             if o_status order' = FILLED then Inr (order', [fill])
             else
               (case replay_order cfg slippage_at order' ticks of
                  Inl e \<Rightarrow> Inl e
                | Inr (order'', fills) \<Rightarrow> Inr (order'', fill # fills))))"

text \<open>
  The spec's fill invariant of an order against the list of (price, quantity) fills applied
  to it so far; the mean is stated multiplied out, so that it also reads on no fills.
\<close>

definition fills_consistent :: "Order \<Rightarrow> (rat \<times> rat) list \<Rightarrow> bool" where
  "fills_consistent order fills \<longleftrightarrow>
     o_filled_quantity order = sum_list (map snd fills)
     \<and> o_average_fill_price order * o_filled_quantity order
         = sum_list (map (\<lambda>(price, qty). price * qty) fills)
     \<and> 0 \<le> o_filled_quantity order
     \<and> o_filled_quantity order \<le> o_quantity order"

text \<open>
  A risk gate with one position: reference price 100 for MSFT, then a fill BUY 10 MSFT at
  100 (exposure 1000). The order BUY 100 AAPL at 10 passes every check up to the rate check
  and fails the concentration check (1000 / 2000 = 0.5 > 0.3).
\<close>

definition msft_fill :: Fill where
  "msft_fill =
     \<lparr>f_fill_id = ''f1'', f_order_id = ''o1'', f_symbol = ''MSFT'', f_side = BUY,
      f_quantity = 10, f_price = 100, f_timestamp = 0, f_venue = ''BACKTEST'', f_fee = 0,
      f_fee_currency = ''USD'', f_liquidity_flag = ''MAKER''\<rparr>"


definition aapl_order :: Order where
  "aapl_order =
     \<lparr>o_order_id = ''o2'', o_client_order_id = ''c2'', o_symbol = ''AAPL'', o_side = BUY,
      o_order_type = LIMIT, o_quantity = 100, o_price = Some 10, o_time_in_force = GTC,
      o_status = PENDING, o_filled_quantity = 0, o_average_fill_price = 0, o_timestamp = 0,
      o_last_update = 0, o_venue = [], o_parent_order_id = None, o_strategy_id = None,
      o_account_id = None\<rparr>"



definition fat_finger_order :: Order where
  "fat_finger_order =
     \<lparr>o_order_id = ''o3'', o_client_order_id = ''c3'', o_symbol = ''AAPL'', o_side = BUY,
      o_order_type = LIMIT, o_quantity = 10, o_price = Some 160, o_time_in_force = GTC,
      o_status = PENDING, o_filled_quantity = 0, o_average_fill_price = 0, o_timestamp = 0,
      o_last_update = 0, o_venue = [], o_parent_order_id = None, o_strategy_id = None,
      o_account_id = None\<rparr>"



definition core_limits :: CoreRiskLimits where
  "core_limits =
     \<lparr>crl_max_position_size = 10000, crl_max_order_size = 1000, crl_max_daily_loss = 50000,
      crl_max_daily_volume = 10000000, crl_max_open_orders = 100,
      crl_max_order_value = 1000000, crl_min_order_value = 10\<rparr>"

definition aapl :: Instrument where
  "aapl =
     \<lparr>symbol = ''AAPL'', exchange = ''NASDAQ'', asset_class = ''EQUITY'', tick_size = 1 / 100,
      lot_size = 1, min_order_qty = 1, max_order_qty = 1000000, contract_multiplier = 1\<rparr>"

definition nasdaq :: Venue where
  "nasdaq =
     \<lparr>venue_id = ''NASDAQ'', venue_name = ''Nasdaq'', is_dark_pool = False,
      maker_fee = 1 / 10000, taker_fee = 2 / 10000, venue_min_order_size = 1 / 100,
      venue_tick_size = 1 / 100\<rparr>"

definition core_fat_finger_order :: CoreOrder where
  "core_fat_finger_order =
     \<lparr>co_order_id = ''o4'', co_instrument = aapl, co_side = BUY, co_order_type = CORE_LIMIT,
      co_quantity = 10, co_price = Some 160, co_status = PENDING_NEW, co_venue = None,
      co_filled_quantity = 0, co_avg_fill_price = 0, co_submitted_at = None\<rparr>"

text \<open>Two managers with the breaker tripped, and a run of calls on each.\<close>

definition tripped_rm :: RiskManager where
  "tripped_rm =
     trigger_circuit_breaker (RiskManager_init RiskLimits_default 1000000 0)
       (DailyLossExceeds 60000 50000)"

definition tripped_ops :: "gate_op list" where
  "tripped_ops =
     [UpdateReferencePrice ''AAPL'' 150, OnFill msft_fill, PreTradeCheck 5 fat_finger_order]"

definition tripped_crm :: CoreRiskManager where
  "tripped_crm = handle_emergency_stop (CoreRiskManager_init core_limits 0)"

definition tripped_cops :: "core_gate_op list" where
  "tripped_cops =
     [CheckOrder 1 core_fat_finger_order 150, UpdateMarketData [(''AAPL'', 150)],
      MonitorResetDailyMetrics 2]"

text \<open>
  A bar of two trades, 1 at 100 and 3 at 200, and \<open>int\<close> on the one string the interval
  \<open>1m\<close> needs.
\<close>

definition two_ticks :: "Tick list" where
  "two_ticks =
     [\<lparr>t_symbol = ''AAPL'', t_timestamp = 0, t_price = 100, t_quantity = 1, t_side = ''BUY'',
       t_trade_id = []\<rparr>,
      \<lparr>t_symbol = ''AAPL'', t_timestamp = 1, t_price = 200, t_quantity = 3, t_side = ''BUY'',
       t_trade_id = []\<rparr>]"

definition int_of_1 :: "string \<Rightarrow> int option" where
  "int_of_1 s = (if s = ''1'' then Some 1 else None)"

text \<open>
  A market BUY of 100 against a book that shows 40 on the ask side (mid 100), partial fills
  enabled with probability 0.15; only slippage is switched on.
\<close>

definition thin_snapshot :: OrderBookSnapshot where
  "thin_snapshot =
     \<lparr>snap_symbol = ''AAPL'', snap_venue_id = ''NASDAQ'',
      snap_bids = [\<lparr>lvl_price = 99, lvl_size = 50, lvl_num_orders = 1\<rparr>],
      snap_asks = [\<lparr>lvl_price = 101, lvl_size = 40, lvl_num_orders = 1\<rparr>],
      snap_timestamp = 0, snap_sequence_number = 1\<rparr>"

definition thin_engine :: CoreBacktestEngine where
  "thin_engine =
     \<lparr>bt_config = \<lparr>cfg_venues = [nasdaq], enable_market_impact = False,
                    enable_slippage = True, enable_fees = False, enable_partial_fills = True,
                    partial_fill_probability = 15 / 100\<rparr>,
      bt_current_time = 0, bt_capital = 1000000, bt_positions = [],
      bt_order_books =
        [(''AAPL_NASDAQ'', \<lparr>bob_instrument = aapl, bob_venue = nasdaq,
                             bob_snapshot = Some thin_snapshot,
                             bob_last_trade_price = Some 100\<rparr>)],
      bt_pending_orders = [], bt_filled_orders = [], bt_fills = [], bt_trade_pnls = [],
      bt_total_slippage = 0, bt_total_impact = 0, bt_total_fees = 0,
      bt_market_prices = [(''AAPL'', 100)], bt_daily_volumes = []\<rparr>"

definition big_order :: CoreOrder where
  "big_order =
     \<lparr>co_order_id = ''o5'', co_instrument = aapl, co_side = BUY, co_order_type = CORE_MARKET,
      co_quantity = 100, co_price = None, co_status = PENDING_NEW, co_venue = Some nasdaq,
      co_filled_quantity = 0, co_avg_fill_price = 0, co_submitted_at = Some 0\<rparr>"

text \<open>
  What one call of \<open>_execute_order\<close> leaves: the order and the engine for the next call,
  and a summary (returned flag, filled quantity, average fill price, status, and the
  (price, quantity) of every fill the engine holds).
\<close>

definition order_after :: "py_error + (bool \<times> CoreOrder \<times> CoreBacktestEngine) \<Rightarrow> CoreOrder" where
  "order_after r = (case r of Inr (_, order, _) \<Rightarrow> order | Inl _ \<Rightarrow> big_order)"

definition engine_after ::
  "py_error + (bool \<times> CoreOrder \<times> CoreBacktestEngine) \<Rightarrow> CoreBacktestEngine" where
  "engine_after r = (case r of Inr (_, _, eng) \<Rightarrow> eng | Inl _ \<Rightarrow> thin_engine)"

definition execution_summary ::
  "py_error + (bool \<times> CoreOrder \<times> CoreBacktestEngine)
     \<Rightarrow> py_error + (bool \<times> decimal \<times> decimal \<times> CoreOrderStatus \<times> (decimal \<times> decimal) list)" where
  "execution_summary r =
     (case r of
        Inl e \<Rightarrow> Inl e
      | Inr (flag, order, eng) \<Rightarrow>
          Inr (flag, co_filled_quantity order, co_avg_fill_price order, co_status order,
               map (\<lambda>f. (cf_price f, cf_quantity f)) (bt_fills eng)))"

definition first_execution :: "py_error + (bool \<times> CoreOrder \<times> CoreBacktestEngine)" where
  "first_execution = execute_order thin_engine big_order 0 0 0"



text \<open>A tick stamped 2005-04-17 08:29:02.646319 UTC (POSIX 1113726542.646319).\<close>

definition odd_tick :: Tick where
  "odd_tick =
     \<lparr>t_symbol = ''AAPL'', t_timestamp = 1113726542646319 / 1000000, t_price = 601 / 4,
      t_quantity = 10, t_side = ''BUY'', t_trade_id = []\<rparr>"

text \<open>
  Scenario 6 of the spec up to the last rise: a long position entered at 100 with the
  default 2 percent trail, and the price path 102, 101, 104, 103.
\<close>

definition default_trailing_config :: TrailingStopConfig where
  "default_trailing_config =
     \<lparr>trailing_type = PERCENTAGE, trailing_mode = IMMEDIATE, trailing_distance = 2 / 100,
      trailing_distance_pips = 10 / 100, activation_profit_pct = 1 / 100,
      breakeven_buffer_pct = 5 / 1000, step_size = 1 / 100, step_interval = 2 / 100,
      min_profit_lock = 5 / 1000, max_trailing_distance = 5 / 100\<rparr>"

definition long_stop_manager :: TrailingStopManager where
  "long_stop_manager =
     snd (add_position
            \<lparr>default_config = default_trailing_config, trailing_stops = [],
             total_adjustments = 0, total_stops_triggered = 0, total_profit_protected = 0,
             submitted_close_orders = []\<rparr>
            0 ''p1'' aapl BUY 100 10 None)"

definition price_path :: "(timestamp \<times> string \<times> decimal) list" where
  "price_path = [(1, ''p1'', 102), (2, ''p1'', 101), (3, ''p1'', 104), (4, ''p1'', 103)]"

section \<open>The order book: sorted views and crossing\<close>

lemma hd_sort_Min:
  fixes xs :: "'a::linorder list"
  assumes "xs \<noteq> []"
  shows "hd (sort xs) = Min (set xs)"
proof -
  obtain y ys where ys: "sort xs = y # ys"
    using assms by (cases "sort xs") (auto dest: arg_cong[where f=set])
  have "sorted (sort xs)" by simp
  then have s: "sorted (y # ys)" using ys by simp
  have "set (sort xs) = set xs" by simp
  then have m: "set (y # ys) = set xs" using ys by simp
  have "Min (set xs) = y"
  proof (rule Min_eqI)
    show "finite (set xs)" by simp
    show "y \<in> set xs" using m by auto
    fix z assume "z \<in> set xs"
    then have "z \<in> set (y # ys)" using m by simp
    then show "y \<le> z" using s by auto
  qed
  then show ?thesis using ys by simp
qed

lemma hd_rev_sort_Max:
  fixes xs :: "'a::linorder list"
  assumes "xs \<noteq> []"
  shows "hd (rev (sort xs)) = Max (set xs)"
proof -
  have ne: "sort xs \<noteq> []" using assms by (metis set_sort set_empty)
  then obtain ys y where ys: "sort xs = ys @ [y]"
    by (metis append_butlast_last_id)
  have "sorted (sort xs)" by simp
  then have s: "sorted (ys @ [y])" using ys by simp
  have "set (sort xs) = set xs" by simp
  then have m: "set (ys @ [y]) = set xs" using ys by simp
  have "Max (set xs) = y"
  proof (rule Max_eqI)
    show "finite (set xs)" by simp
    show "y \<in> set xs" using m by auto
    fix z assume "z \<in> set xs"
    then have "z \<in> set (ys @ [y])" using m by simp
    then show "z \<le> y" using s by (auto simp: sorted_append)
  qed
  then show ?thesis using ys by simp
qed

lemma level_at_key:
  "p \<in> fst ` set d \<Longrightarrow>
   \<exists>s. level_at d p = Inr (Some \<lparr>lvl_price = p, lvl_size = s, lvl_num_orders = 1\<rparr>)"
  by (cases "map_of d p") (auto simp: level_at_def map_of_eq_None_iff)

text \<open>On a book whose views were rebuilt, the tops are the highest bid and the lowest ask.\<close>

lemma best_bid_of_view:
  assumes "ob_bid_prices ob = rev (sort (map fst (ob_bids ob)))"
  shows "(ob_bids ob = [] \<longrightarrow> get_best_bid ob = Inr None) \<and>
         (ob_bids ob \<noteq> [] \<longrightarrow> (\<exists>s. get_best_bid ob =
             Inr (Some \<lparr>lvl_price = Max (fst ` set (ob_bids ob)), lvl_size = s,
                        lvl_num_orders = 1\<rparr>)))"
proof (cases "ob_bids ob = []")
  case True
  then show ?thesis using assms by (simp add: get_best_bid_def)
next
  case False
  then have ne: "map fst (ob_bids ob) \<noteq> []" by simp
  have mx: "hd (rev (sort (map fst (ob_bids ob)))) = Max (fst ` set (ob_bids ob))"
    using hd_rev_sort_Max[OF ne] by simp
  have "rev (sort (map fst (ob_bids ob))) \<noteq> []"
    using ne by (metis rev_is_Nil_conv set_sort set_empty)
  then obtain p ps where pp: "rev (sort (map fst (ob_bids ob))) = p # ps"
    by (cases "rev (sort (map fst (ob_bids ob)))") auto
  then have p: "p = Max (fst ` set (ob_bids ob))" using mx by simp
  have "Max (fst ` set (ob_bids ob)) \<in> fst ` set (ob_bids ob)"
    using False by (intro Max_in) auto
  then obtain s where
    "level_at (ob_bids ob) p = Inr (Some \<lparr>lvl_price = p, lvl_size = s, lvl_num_orders = 1\<rparr>)"
    using level_at_key p by blast
  then show ?thesis using False assms pp p by (auto simp: get_best_bid_def)
qed

lemma best_ask_of_view:
  assumes "ob_ask_prices ob = sort (map fst (ob_asks ob))"
  shows "(ob_asks ob = [] \<longrightarrow> get_best_ask ob = Inr None) \<and>
         (ob_asks ob \<noteq> [] \<longrightarrow> (\<exists>s. get_best_ask ob =
             Inr (Some \<lparr>lvl_price = Min (fst ` set (ob_asks ob)), lvl_size = s,
                        lvl_num_orders = 1\<rparr>)))"
proof (cases "ob_asks ob = []")
  case True
  then show ?thesis using assms by (simp add: get_best_ask_def)
next
  case False
  then have ne: "map fst (ob_asks ob) \<noteq> []" by simp
  have mn: "hd (sort (map fst (ob_asks ob))) = Min (fst ` set (ob_asks ob))"
    using hd_sort_Min[OF ne] by simp
  have "sort (map fst (ob_asks ob)) \<noteq> []" using ne by (metis set_sort set_empty)
  then obtain p ps where pp: "sort (map fst (ob_asks ob)) = p # ps"
    by (cases "sort (map fst (ob_asks ob))") auto
  then have p: "p = Min (fst ` set (ob_asks ob))" using mn by simp
  have "Min (fst ` set (ob_asks ob)) \<in> fst ` set (ob_asks ob)"
    using False by (intro Min_in) auto
  then obtain s where
    "level_at (ob_asks ob) p = Inr (Some \<lparr>lvl_price = p, lvl_size = s, lvl_num_orders = 1\<rparr>)"
    using level_at_key p by blast
  then show ?thesis using False assms pp p by (auto simp: get_best_ask_def)
qed

lemma uncrossed_iff_levels:
  assumes b: "ob_bid_prices ob = rev (sort (map fst (ob_bids ob)))"
      and a: "ob_ask_prices ob = sort (map fst (ob_asks ob))"
  shows "book_uncrossed ob \<longleftrightarrow>
         (\<forall>p\<in>fst ` set (ob_bids ob). \<forall>q\<in>fst ` set (ob_asks ob). p < q)"
proof (cases "ob_bids ob = [] \<or> ob_asks ob = []")
  case True
  then show ?thesis
    using best_bid_of_view[OF b] best_ask_of_view[OF a]
    by (auto simp: book_uncrossed_def split: sum.splits option.splits)
next
  case False
  then have nb: "ob_bids ob \<noteq> []" and na: "ob_asks ob \<noteq> []" by auto
  obtain s where s: "get_best_bid ob =
      Inr (Some \<lparr>lvl_price = Max (fst ` set (ob_bids ob)), lvl_size = s, lvl_num_orders = 1\<rparr>)"
    using best_bid_of_view[OF b] nb by blast
  obtain t where t: "get_best_ask ob =
      Inr (Some \<lparr>lvl_price = Min (fst ` set (ob_asks ob)), lvl_size = t, lvl_num_orders = 1\<rparr>)"
    using best_ask_of_view[OF a] na by blast
  have "book_uncrossed ob \<longleftrightarrow> Max (fst ` set (ob_bids ob)) < Min (fst ` set (ob_asks ob))"
    by (simp add: book_uncrossed_def s t)
  also have "\<dots> \<longleftrightarrow> (\<forall>p\<in>fst ` set (ob_bids ob). \<forall>q\<in>fst ` set (ob_asks ob). p < q)"
    using nb na by (subst Max_less_iff) (auto simp: Min_gr_iff)
  finally show ?thesis .
qed

lemma keys_load_levels:
  "fst ` set (load_levels ls d) =
     fst ` set d \<union> {lvl_price l | l. l \<in> set ls \<and> 0 < lvl_size l}"
proof (induction ls arbitrary: d)
  case Nil
  then show ?case by simp
next
  case (Cons l ls)
  show ?case by (simp add: Cons.IH AList.dom_update) blast
qed

lemma keys_delete: "fst ` set (AList.delete k al) = fst ` set al - {k}"
  by (auto simp: AList.delete_eq)

lemma snapshot_views:
  "ob_bid_prices (update_snapshot ob s) = rev (sort (map fst (ob_bids (update_snapshot ob s))))"
  "ob_ask_prices (update_snapshot ob s) = sort (map fst (ob_asks (update_snapshot ob s)))"
  "ob_bids (update_snapshot ob s) = load_levels (snap_bids s) []"
  "ob_asks (update_snapshot ob s) = load_levels (snap_asks s) []"
  by (simp_all add: update_snapshot_def rebuild_sorted_levels_def Let_def)

lemma incremental_views:
  "ob_bid_prices (update_incremental ob u) =
     rev (sort (map fst (ob_bids (update_incremental ob u))))"
  "ob_ask_prices (update_incremental ob u) = sort (map fst (ob_asks (update_incremental ob u)))"
  by (simp_all add: update_incremental_def rebuild_sorted_levels_def Let_def)

lemma incremental_dicts:
  "ob_bids (update_incremental ob u) =
     (if upd_side u = BUY then
        (if upd_action u = ''DELETE'' \<or> upd_size u = 0
         then AList.delete (upd_price u) (ob_bids ob)
         else AList.update (upd_price u) (upd_size u) (ob_bids ob))
      else ob_bids ob)"
  "ob_asks (update_incremental ob u) =
     (if upd_side u = BUY then ob_asks ob
      else
        (if upd_action u = ''DELETE'' \<or> upd_size u = 0
         then AList.delete (upd_price u) (ob_asks ob)
         else AList.update (upd_price u) (upd_size u) (ob_asks ob)))"
  by (simp_all add: update_incremental_def rebuild_sorted_levels_def Let_def)

lemma incremental_bid_keys:
  "fst ` set (ob_bids (update_incremental ob u)) =
     (if upd_side u \<noteq> BUY then fst ` set (ob_bids ob)
      else if upd_action u = ''DELETE'' \<or> upd_size u = 0
      then fst ` set (ob_bids ob) - {upd_price u}
      else insert (upd_price u) (fst ` set (ob_bids ob)))"
  by (simp add: incremental_dicts keys_delete AList.dom_update)

lemma incremental_ask_keys:
  "fst ` set (ob_asks (update_incremental ob u)) =
     (if upd_side u = BUY then fst ` set (ob_asks ob)
      else if upd_action u = ''DELETE'' \<or> upd_size u = 0
      then fst ` set (ob_asks ob) - {upd_price u}
      else insert (upd_price u) (fst ` set (ob_asks ob)))"
  by (simp add: incremental_dicts keys_delete AList.dom_update)

lemma snapshot_uncrossed_iff:
  "book_uncrossed (update_snapshot ob s) \<longleftrightarrow>
     (\<forall>b\<in>set (snap_bids s). \<forall>a\<in>set (snap_asks s).
        0 < lvl_size b \<and> 0 < lvl_size a \<longrightarrow> lvl_price b < lvl_price a)"
  unfolding uncrossed_iff_levels[OF snapshot_views(1,2)] snapshot_views(3,4) keys_load_levels
  by auto

lemma incremental_uncrossed_iff:
  "book_uncrossed (update_incremental ob u) \<longleftrightarrow>
     (\<forall>p \<in> (if upd_side u \<noteq> BUY then fst ` set (ob_bids ob)
              else if upd_action u = ''DELETE'' \<or> upd_size u = 0
              then fst ` set (ob_bids ob) - {upd_price u}
              else insert (upd_price u) (fst ` set (ob_bids ob))).
      \<forall>q \<in> (if upd_side u = BUY then fst ` set (ob_asks ob)
              else if upd_action u = ''DELETE'' \<or> upd_size u = 0
              then fst ` set (ob_asks ob) - {upd_price u}
              else insert (upd_price u) (fst ` set (ob_asks ob))).
        p < q)"
  unfolding uncrossed_iff_levels[OF incremental_views] incremental_bid_keys incremental_ask_keys
  by (rule refl)

text \<open>
  C3, as stated, fails. The crossed snapshot (bid 101 above ask 100) is taken as it is:
  \<open>update_snapshot\<close> has no failure result, stores both levels, and leaves a book whose best
  bid is not below its best ask.
\<close>

theorem crossed_snapshot_is_accepted:
  "ob_bids (update_snapshot (OrderBook_init ''AAPL'' ''NASDAQ'') crossed_snapshot) = [(101, 5)]
   \<and> ob_asks (update_snapshot (OrderBook_init ''AAPL'' ''NASDAQ'') crossed_snapshot) = [(100, 5)]
   \<and> get_best_bid (update_snapshot (OrderBook_init ''AAPL'' ''NASDAQ'') crossed_snapshot)
       = Inr (Some \<lparr>lvl_price = 101, lvl_size = 5, lvl_num_orders = 1\<rparr>)
   \<and> get_best_ask (update_snapshot (OrderBook_init ''AAPL'' ''NASDAQ'') crossed_snapshot)
       = Inr (Some \<lparr>lvl_price = 100, lvl_size = 5, lvl_num_orders = 1\<rparr>)
   \<and> \<not> book_uncrossed (update_snapshot (OrderBook_init ''AAPL'' ''NASDAQ'') crossed_snapshot)"
  by (simp add: crossed_snapshot_def update_snapshot_def OrderBook_init_def
        rebuild_sorted_levels_def get_best_bid_def get_best_ask_def level_at_def
        book_uncrossed_def Let_def)

text \<open>
  C3, amended. After every snapshot replacement or incremental update the sorted views are
  rebuilt from the level maps (bid prices descending, ask prices ascending), and nothing is
  checked or rejected. The book after \<open>update_snapshot\<close> is uncrossed exactly when every
  positive-size bid of the snapshot is priced strictly below every positive-size ask of the
  snapshot; the book after \<open>update_incremental\<close> is uncrossed exactly when every bid price
  then stored (the old ones, with the update's price removed or added on the bid side) is
  strictly below every ask price then stored.
\<close>

theorem book_uncrossed_iff_input_uncrossed:
  "(book_uncrossed (update_snapshot ob s) \<longleftrightarrow>
      (\<forall>b\<in>set (snap_bids s). \<forall>a\<in>set (snap_asks s).
         0 < lvl_size b \<and> 0 < lvl_size a \<longrightarrow> lvl_price b < lvl_price a))
   \<and> (book_uncrossed (update_incremental ob u) \<longleftrightarrow>
      (\<forall>p \<in> (if upd_side u \<noteq> BUY then fst ` set (ob_bids ob)
               else if upd_action u = ''DELETE'' \<or> upd_size u = 0
               then fst ` set (ob_bids ob) - {upd_price u}
               else insert (upd_price u) (fst ` set (ob_bids ob))).
       \<forall>q \<in> (if upd_side u = BUY then fst ` set (ob_asks ob)
               else if upd_action u = ''DELETE'' \<or> upd_size u = 0
               then fst ` set (ob_asks ob) - {upd_price u}
               else insert (upd_price u) (fst ` set (ob_asks ob))).
         p < q))
   \<and> ob_bid_prices (update_snapshot ob s)
       = rev (sort (map fst (ob_bids (update_snapshot ob s))))
   \<and> ob_ask_prices (update_snapshot ob s) = sort (map fst (ob_asks (update_snapshot ob s)))
   \<and> ob_bid_prices (update_incremental ob u)
       = rev (sort (map fst (ob_bids (update_incremental ob u))))
   \<and> ob_ask_prices (update_incremental ob u)
       = sort (map fst (ob_asks (update_incremental ob u)))"
  using snapshot_uncrossed_iff[of ob s] incremental_uncrossed_iff[of ob u]
        snapshot_views(1,2)[of ob s] incremental_views[of ob u]
  by blast

theorem book_uncrossed_iff_input_uncrossed_witness:
  "book_uncrossed (update_snapshot (OrderBook_init ''AAPL'' ''NASDAQ'') uncrossed_snapshot)
   \<and> book_uncrossed
       (update_incremental
          (update_snapshot (OrderBook_init ''AAPL'' ''NASDAQ'') uncrossed_snapshot)
          bid_below_update)"
proof -
  let ?ob0 = "OrderBook_init ''AAPL'' ''NASDAQ''"
  let ?ob1 = "update_snapshot ?ob0 uncrossed_snapshot"
  have d: "ob_bids ?ob1 = [(100, 5)]" "ob_asks ?ob1 = [(101, 5)]"
    by (simp_all add: uncrossed_snapshot_def update_snapshot_def OrderBook_init_def
          rebuild_sorted_levels_def Let_def)
  have "book_uncrossed ?ob1"
    using book_uncrossed_iff_input_uncrossed[of ?ob0 uncrossed_snapshot bid_below_update]
    by (simp add: uncrossed_snapshot_def)
  moreover have "book_uncrossed (update_incremental ?ob1 bid_below_update)"
    using book_uncrossed_iff_input_uncrossed[of ?ob1 uncrossed_snapshot bid_below_update]
    by (simp add: d bid_below_update_def)
  ultimately show ?thesis by simp
qed

section \<open>The order book: derived quantities\<close>

lemma scenario_book_eq:
  "scenario_book =
     \<lparr>ob_symbol = ''AAPL'', ob_venue_id = ''NASDAQ'',
      ob_bids = [(100, 10), (199 / 2, 20)], ob_asks = [(201 / 2, 15), (101, 25)],
      ob_bid_prices = [100, 199 / 2], ob_ask_prices = [201 / 2, 101],
      ob_last_update = Some 4, ob_sequence_number = 4, ob_update_count = 4\<rparr>"
  by (simp add: scenario_book_def scenario_updates_def update_incremental_def OrderBook_init_def
        rebuild_sorted_levels_def Let_def)

lemma scenario_md_book_eq:
  "scenario_md_book =
     \<lparr>md_symbol = ''AAPL'', md_timestamp = 4,
      md_bids = [\<lparr>pl_price = 100, pl_quantity = 10, pl_num_orders = 1\<rparr>,
                 \<lparr>pl_price = 199 / 2, pl_quantity = 20, pl_num_orders = 1\<rparr>],
      md_asks = [\<lparr>pl_price = 201 / 2, pl_quantity = 15, pl_num_orders = 1\<rparr>,
                 \<lparr>pl_price = 101, pl_quantity = 25, pl_num_orders = 1\<rparr>],
      md_sequence_number = 0\<rparr>"
  by (simp add: scenario_md_book_def update_ask_def update_bid_def MD_OrderBook_init_def
        update_level_def bisect_left_def list_insert_def Let_def)

lemma scenario_best_bid:
  "get_best_bid scenario_book = Inr (Some \<lparr>lvl_price = 100, lvl_size = 10, lvl_num_orders = 1\<rparr>)"
  by (simp add: scenario_book_eq get_best_bid_def level_at_def)

lemma scenario_best_ask:
  "get_best_ask scenario_book
     = Inr (Some \<lparr>lvl_price = 201 / 2, lvl_size = 15, lvl_num_orders = 1\<rparr>)"
  by (simp add: scenario_book_eq get_best_ask_def level_at_def)

lemma microprice_formula:
  "get_best_bid ob = Inr (Some b) \<Longrightarrow> get_best_ask ob = Inr (Some a)
   \<Longrightarrow> 0 < lvl_size b + lvl_size a
   \<Longrightarrow> get_microprice ob =
         Inr (Some ((lvl_size a * lvl_price b + lvl_size b * lvl_price a)
                      / (lvl_size b + lvl_size a)))"
  by (simp add: get_microprice_def with_tops_def Let_def)

text \<open>
  C7. From an empty book, the four updates bid 100.00 x 10, bid 99.50 x 20, ask 100.50 x 15,
  ask 101.00 x 25 give best bid 100.00, best ask 100.50, mid 100.25 and spread 0.50 on the
  list-based book (\<open>update_bid\<close> / \<open>update_ask\<close>) and on the dict-based book (incremental
  updates), where also microprice = (15 * 100.00 + 10 * 100.50) / 25 = 100.20 and
  imbalance = (30 - 40) / 70 = -1/7 = -0.1428...; and on every book with both tops and a
  positive top-of-book size, the microprice is
  (ask size * bid price + bid size * ask price) / (bid size + ask size).
\<close>

theorem scenario_derived_metrics:
  "map_option pl_price (best_bid scenario_md_book) = Some 100
   \<and> map_option pl_price (best_ask scenario_md_book) = Some (201 / 2)
   \<and> mid_price scenario_md_book = 401 / 4
   \<and> spread scenario_md_book = 1 / 2
   \<and> get_best_bid scenario_book
       = Inr (Some \<lparr>lvl_price = 100, lvl_size = 10, lvl_num_orders = 1\<rparr>)
   \<and> get_best_ask scenario_book
       = Inr (Some \<lparr>lvl_price = 201 / 2, lvl_size = 15, lvl_num_orders = 1\<rparr>)
   \<and> get_mid_price scenario_book = Inr (Some (401 / 4))
   \<and> get_spread scenario_book = Inr (Some (1 / 2))
   \<and> get_microprice scenario_book = Inr (Some ((15 * 100 + 10 * (201 / 2)) / 25))
   \<and> get_microprice scenario_book = Inr (Some (1002 / 10))
   \<and> get_order_book_imbalance scenario_book = (30 - 40) / 70
   \<and> get_order_book_imbalance scenario_book = - 1 / 7
   \<and> - 1429 / 10000 < get_order_book_imbalance scenario_book
   \<and> get_order_book_imbalance scenario_book < - 1428 / 10000
   \<and> (\<forall>ob b a. get_best_bid ob = Inr (Some b) \<and> get_best_ask ob = Inr (Some a)
          \<and> 0 < lvl_size b + lvl_size a
        \<longrightarrow> get_microprice ob =
              Inr (Some ((lvl_size a * lvl_price b + lvl_size b * lvl_price a)
                           / (lvl_size b + lvl_size a))))"
proof -
  have md: "map_option pl_price (best_bid scenario_md_book) = Some 100
      \<and> map_option pl_price (best_ask scenario_md_book) = Some (201 / 2)
      \<and> mid_price scenario_md_book = 401 / 4 \<and> spread scenario_md_book = 1 / 2"
    by (simp add: scenario_md_book_eq best_bid_def best_ask_def mid_price_def spread_def)
  have mid: "get_mid_price scenario_book = Inr (Some (401 / 4))"
    by (simp add: get_mid_price_def with_tops_def scenario_best_bid scenario_best_ask)
  have spr: "get_spread scenario_book = Inr (Some (1 / 2))"
    by (simp add: get_spread_def with_tops_def scenario_best_bid scenario_best_ask)
  have mp: "get_microprice scenario_book = Inr (Some (1002 / 10))"
    by (simp add: get_microprice_def with_tops_def scenario_best_bid scenario_best_ask)
  have mp': "(15 * 100 + 10 * (201 / 2)) / 25 = (1002 / 10 :: rat)" by simp
  have imb: "get_order_book_imbalance scenario_book = - 1 / 7"
    by (simp add: get_order_book_imbalance_def scenario_book_eq)
  have imb': "(30 - 40) / 70 = (- 1 / 7 :: rat)" by simp
  have rng: "- 1429 / 10000 < (- 1 / 7 :: rat)" "(- 1 / 7 :: rat) < - 1428 / 10000" by simp_all
  show ?thesis
    using md mid spr mp mp' imb imb' rng scenario_best_bid scenario_best_ask microprice_formula
    by (simp only: simp_thms) blast
qed

theorem scenario_derived_metrics_witness:
  "get_best_bid scenario_book = Inr (Some \<lparr>lvl_price = 100, lvl_size = 10, lvl_num_orders = 1\<rparr>)
   \<and> get_best_ask scenario_book
       = Inr (Some \<lparr>lvl_price = 201 / 2, lvl_size = 15, lvl_num_orders = 1\<rparr>)
   \<and> (0 :: rat) < 10 + 15
   \<and> get_microprice scenario_book = Inr (Some ((15 * 100 + 10 * (201 / 2)) / (10 + 15)))"
proof -
  let ?b = "\<lparr>lvl_price = 100, lvl_size = 10, lvl_num_orders = 1\<rparr>"
  let ?a = "\<lparr>lvl_price = 201 / 2, lvl_size = 15, lvl_num_orders = 1\<rparr>"
  have gen: "get_best_bid scenario_book = Inr (Some ?b) \<and> get_best_ask scenario_book = Inr (Some ?a)
          \<and> 0 < lvl_size ?b + lvl_size ?a
        \<longrightarrow> get_microprice scenario_book =
              Inr (Some ((lvl_size ?a * lvl_price ?b + lvl_size ?b * lvl_price ?a)
                           / (lvl_size ?b + lvl_size ?a)))"
    using scenario_derived_metrics by blast
  have tops: "get_best_bid scenario_book = Inr (Some ?b)" "get_best_ask scenario_book = Inr (Some ?a)"
    using scenario_derived_metrics by blast+
  show ?thesis using gen tops by simp
qed

section \<open>The risk gate: circuit breaker\<close>

lemma pre_trade_check_halted:
  "is_trading_halted rm \<Longrightarrow>
   pre_trade_check rm now order = (Inr (False, TradingHalted (halt_reason rm)), rm)"
  by (simp add: pre_trade_check_def)

lemma on_fill_halt_flag:
  "is_trading_halted (on_fill rm fill) = is_trading_halted rm"
  "halt_reason (on_fill rm fill) = halt_reason rm"
  by (simp_all add: on_fill_def recalculate_exposure_def Let_def)

lemma apply_gate_op_halted:
  assumes "is_trading_halted rm"
  shows "is_trading_halted (apply_gate_op rm op)
         \<and> halt_reason (apply_gate_op rm op) = halt_reason rm"
proof (cases op)
  case (PreTradeCheck now order)
  then show ?thesis using assms by (simp add: pre_trade_check_halted)
next
  case (OnFill fill)
  then show ?thesis using assms by (simp add: on_fill_halt_flag)
next
  case (UpdateReferencePrice name price)
  then show ?thesis using assms by (simp add: update_reference_price_def)
qed

lemma run_gate_ops_halted:
  "is_trading_halted rm \<Longrightarrow>
   is_trading_halted (foldl apply_gate_op rm ops)
   \<and> halt_reason (foldl apply_gate_op rm ops) = halt_reason rm"
proof (induction ops arbitrary: rm)
  case Nil
  then show ?case by simp
next
  case (Cons op ops)
  have h: "is_trading_halted (apply_gate_op rm op)"
          "halt_reason (apply_gate_op rm op) = halt_reason rm"
    using apply_gate_op_halted[OF Cons.prems] by simp_all
  show ?case using Cons.IH[OF h(1)] h(2) by simp
qed

lemma check_order_halted:
  "crm_is_trading_halted crm \<Longrightarrow>
   check_order crm now order current_price =
     Inr ((False, Some \<lparr>violation_type = DAILY_LOSS_LIMIT,
                        violation_description = TradingIsHalted,
                        violation_order = Some order, violation_timestamp = now,
                        severity = ''CRITICAL''\<rparr>), crm)"
  by (simp add: check_order_def)

lemma apply_core_gate_op_halted:
  assumes "crm_is_trading_halted crm"
  shows "crm_is_trading_halted (apply_core_gate_op crm op)"
proof (cases op)
  case (CheckOrder now order current_price)
  then show ?thesis using assms by (simp add: check_order_halted)
next
  case (CoreOnFill fill)
  then show ?thesis using assms
    by (simp add: core_on_fill_def after_post_trade_def handle_emergency_stop_def Let_def)
next
  case (UpdateMarketData prices)
  then show ?thesis using assms
    by (simp add: update_market_data_def after_post_trade_def handle_emergency_stop_def Let_def)
next
  case (MonitorResetDailyMetrics now)
  then show ?thesis using assms by simp
qed

lemma run_core_gate_ops_halted:
  "crm_is_trading_halted crm \<Longrightarrow> crm_is_trading_halted (foldl apply_core_gate_op crm ops)"
  by (induction ops arbitrary: crm) (simp_all add: apply_core_gate_op_halted)

text \<open>
  C4. Once the breaker is tripped, it stays tripped through every sequence of calls other
  than the explicit reset (pre-trade checks, fills, reference-price or market-data updates),
  and the pre-trade check that follows rejects every order with the halt as its reason,
  leaving the manager as it is; this holds for the risk gate of \<open>risk_manager.py\<close> and for
  the unified manager of \<open>manager.py\<close>. Only the explicit reset (\<open>reset_daily_metrics\<close>,
  \<open>resume_trading\<close>) clears the flag.
\<close>

theorem circuit_breaker_stays_tripped:
  assumes "is_trading_halted rm" and "crm_is_trading_halted crm"
  shows "is_trading_halted (foldl apply_gate_op rm ops)
    \<and> pre_trade_check (foldl apply_gate_op rm ops) now order
        = (Inr (False, TradingHalted (halt_reason rm)), foldl apply_gate_op rm ops)
    \<and> crm_is_trading_halted (foldl apply_core_gate_op crm cops)
    \<and> check_order (foldl apply_core_gate_op crm cops) cnow corder current_price
        = Inr ((False, Some \<lparr>violation_type = DAILY_LOSS_LIMIT,
                              violation_description = TradingIsHalted,
                              violation_order = Some corder, violation_timestamp = cnow,
                              severity = ''CRITICAL''\<rparr>),
               foldl apply_core_gate_op crm cops)
    \<and> \<not> is_trading_halted (reset_daily_metrics (foldl apply_gate_op rm ops) now)
    \<and> \<not> crm_is_trading_halted (resume_trading (foldl apply_core_gate_op crm cops))"
proof -
  have a: "is_trading_halted (foldl apply_gate_op rm ops)"
          "halt_reason (foldl apply_gate_op rm ops) = halt_reason rm"
    using run_gate_ops_halted[OF assms(1)] by simp_all
  have b: "crm_is_trading_halted (foldl apply_core_gate_op crm cops)"
    using run_core_gate_ops_halted[OF assms(2)] .
  show ?thesis
    using a b pre_trade_check_halted[OF a(1), of now order]
          check_order_halted[OF b, of cnow corder current_price]
    by (simp add: reset_daily_metrics_def resume_trading_def)
qed

theorem circuit_breaker_stays_tripped_witness:
  "is_trading_halted tripped_rm \<and> crm_is_trading_halted tripped_crm
   \<and> is_trading_halted (foldl apply_gate_op tripped_rm tripped_ops)
   \<and> pre_trade_check (foldl apply_gate_op tripped_rm tripped_ops) 6 aapl_order
       = (Inr (False, TradingHalted (Some (DailyLossExceeds 60000 50000))),
          foldl apply_gate_op tripped_rm tripped_ops)
   \<and> crm_is_trading_halted (foldl apply_core_gate_op tripped_crm tripped_cops)
   \<and> check_order (foldl apply_core_gate_op tripped_crm tripped_cops) 3 core_fat_finger_order 150
       = Inr ((False, Some \<lparr>violation_type = DAILY_LOSS_LIMIT,
                             violation_description = TradingIsHalted,
                             violation_order = Some core_fat_finger_order,
                             violation_timestamp = 3, severity = ''CRITICAL''\<rparr>),
              foldl apply_core_gate_op tripped_crm tripped_cops)"
proof -
  have h1: "is_trading_halted tripped_rm"
    by (simp add: tripped_rm_def trigger_circuit_breaker_def)
  have h2: "crm_is_trading_halted tripped_crm"
    by (simp add: tripped_crm_def handle_emergency_stop_def)
  have r: "halt_reason tripped_rm = Some (DailyLossExceeds 60000 50000)"
    by (simp add: tripped_rm_def trigger_circuit_breaker_def)
  show ?thesis
    using h1 h2 r
          circuit_breaker_stays_tripped[OF h1 h2, of tripped_ops 6 aapl_order tripped_cops 3
            core_fat_finger_order 150]
    by simp
qed

section \<open>The risk gate: what a rejection leaves behind\<close>









section \<open>Rounding: how far a double or a Decimal is from the exact value\<close>

lemma floor_numeral_div: "\<lfloor>(numeral a :: rat) / numeral b\<rfloor> = numeral a div numeral b"
  using floor_divide_of_int_eq[of "numeral a" "numeral b", where ?'a = rat] by simp












lemma fl_minus: "fl (- x) = - fl x"
  by (simp add: fl_def Let_def sgn_minus)














section \<open>The risk gate: fat-finger check\<close>












































section \<open>The trailing stop: monotone tightening\<close>

lemma stop_not_regressed_refl: "stop_not_regressed ts ts"
  by (simp add: stop_not_regressed_def)

lemma stop_not_regressed_trans:
  "stop_not_regressed a b \<Longrightarrow> stop_not_regressed b c \<Longrightarrow> stop_not_regressed a c"
  by (auto simp: stop_not_regressed_def split: if_splits)

lemma stop_not_regressed_same:
  "ts_side b = ts_side a \<Longrightarrow> current_stop_price b = current_stop_price a \<Longrightarrow> stop_not_regressed a b"
  by (simp add: stop_not_regressed_def)

lemma adjust_not_regressed:
  "adjust_trailing_stop ts now price = (r, ts') \<Longrightarrow> stop_not_regressed ts ts'"
  by (auto simp: adjust_trailing_stop_def stop_not_regressed_def Let_def
           split: sum.splits if_splits)

lemma trigger_stop_stops:
  "trailing_stops (snd (trigger_stop m ts price)) = trailing_stops m
   \<or> trailing_stops (snd (trigger_stop m ts price))
       = AList.delete (ts_position_id ts) (trailing_stops m)"
  by (simp add: trigger_stop_def Let_def split: option.splits)

lemma blocks_not_regressed:
  "stop_not_regressed ts (note_profit ts profit_pct)"
  "stop_not_regressed ts (activate ts now should_activate)"
  "stop_not_regressed ts (track_extremes ts price)"
  by (simp_all add: note_profit_def activate_def track_extremes_def stop_not_regressed_def)

lemma adjust_and_check_stops:
  "\<exists>ts'. stop_not_regressed ts ts'
         \<and> (trailing_stops (snd (adjust_and_check m now p ts price))
               = AList.update p ts' (trailing_stops m)
            \<or> trailing_stops (snd (adjust_and_check m now p ts price))
               = AList.delete (ts_position_id ts') (AList.update p ts' (trailing_stops m)))"
proof -
  obtain r ts' where adj: "(if is_active ts then adjust_trailing_stop ts now price
                            else (Inr False, ts)) = (r, ts')"
    by (cases "if is_active ts then adjust_trailing_stop ts now price else (Inr False, ts)")
  have nr: "stop_not_regressed ts ts'"
    using adj adjust_not_regressed stop_not_regressed_refl by (auto split: if_splits)
  have s: "trailing_stops (store_stop m p ts') = AList.update p ts' (trailing_stops m)"
    by (simp add: store_stop_def)
  have t: "snd (case trigger_stop (store_stop m p ts') ts' price of
                  (Inl e, m') \<Rightarrow> (Inl e, m')
                | (Inr _, m') \<Rightarrow> (Inr False, m'))
           = snd (trigger_stop (store_stop m p ts') ts' price)"
    by (auto split: prod.splits sum.splits)
  have "trailing_stops (snd (adjust_and_check m now p ts price))
               = AList.update p ts' (trailing_stops m)
            \<or> trailing_stops (snd (adjust_and_check m now p ts price))
               = AList.delete (ts_position_id ts') (AList.update p ts' (trailing_stops m))"
    unfolding adjust_and_check_def adj
    using trigger_stop_stops[of "store_stop m p ts'" ts' price] s t
    by (auto split: sum.splits)
  then show ?thesis using nr by blast
qed

lemma update_price_stops:
  assumes "map_of (trailing_stops m) p = Some ts0"
  shows "\<exists>ts4. stop_not_regressed ts0 ts4
           \<and> (trailing_stops (snd (update_price m now p price)) = trailing_stops m
              \<or> trailing_stops (snd (update_price m now p price))
                  = AList.update p ts4 (trailing_stops m)
              \<or> (\<exists>k. trailing_stops (snd (update_price m now p price))
                      = AList.delete k (AList.update p ts4 (trailing_stops m))))"
proof (cases "profit_of ts0 price")
  case (Inl e)
  then show ?thesis using assms stop_not_regressed_refl
    by (auto simp: update_price_def)
next
  case (Inr profit_pct)
  let ?ts1 = "note_profit ts0 profit_pct"
  have r1: "stop_not_regressed ts0 ?ts1" by (rule blocks_not_regressed)
  show ?thesis
  proof (cases "if is_active ?ts1 then Inr False else check_activation ?ts1 price")
    case (Inl e)
    then have "trailing_stops (snd (update_price m now p price))
                 = AList.update p ?ts1 (trailing_stops m)"
      using assms Inr by (simp add: update_price_def store_stop_def Let_def)
    then show ?thesis using r1 by blast
  next
    case act: (Inr should_activate)
    let ?ts3 = "track_extremes (activate ?ts1 now should_activate) price"
    have r3: "stop_not_regressed ts0 ?ts3"
      using r1 blocks_not_regressed(2,3) stop_not_regressed_trans by blast
    have up: "update_price m now p price = adjust_and_check m now p ?ts3 price"
      using assms Inr act by (simp add: update_price_def Let_def)
    obtain ts4 where "stop_not_regressed ?ts3 ts4"
      and "trailing_stops (snd (adjust_and_check m now p ?ts3 price))
               = AList.update p ts4 (trailing_stops m)
            \<or> trailing_stops (snd (adjust_and_check m now p ?ts3 price))
               = AList.delete (ts_position_id ts4) (AList.update p ts4 (trailing_stops m))"
      using adjust_and_check_stops[of ?ts3 m now p price] by blast
    then show ?thesis using r3 up stop_not_regressed_trans by metis
  qed
qed

lemma update_price_untracked:
  assumes "map_of (trailing_stops m) pid = None"
  shows "map_of (trailing_stops (snd (update_price m now p price))) pid = None"
proof (cases "map_of (trailing_stops m) p")
  case None
  then show ?thesis using assms by (simp add: update_price_def)
next
  case (Some ts0)
  then have "p \<noteq> pid" using assms by auto
  obtain ts4 where
    "trailing_stops (snd (update_price m now p price)) = trailing_stops m
     \<or> trailing_stops (snd (update_price m now p price)) = AList.update p ts4 (trailing_stops m)
     \<or> (\<exists>k. trailing_stops (snd (update_price m now p price))
             = AList.delete k (AList.update p ts4 (trailing_stops m)))"
    using update_price_stops[OF Some] by blast
  then show ?thesis using assms \<open>p \<noteq> pid\<close>
    by (auto simp: AList.update_conv' AList.delete_conv')
qed

lemma update_price_step:
  assumes "map_of (trailing_stops m) pid = Some ts"
      and "map_of (trailing_stops (snd (update_price m now p price))) pid = Some ts'"
  shows "stop_not_regressed ts ts'"
proof (cases "map_of (trailing_stops m) p")
  case None
  then show ?thesis using assms stop_not_regressed_refl by (simp add: update_price_def)
next
  case (Some ts0)
  obtain ts4 where r: "stop_not_regressed ts0 ts4" and
    c: "trailing_stops (snd (update_price m now p price)) = trailing_stops m
     \<or> trailing_stops (snd (update_price m now p price)) = AList.update p ts4 (trailing_stops m)
     \<or> (\<exists>k. trailing_stops (snd (update_price m now p price))
             = AList.delete k (AList.update p ts4 (trailing_stops m)))"
    using update_price_stops[OF Some] by blast
  show ?thesis
  proof (cases "p = pid")
    case True
    then have "ts0 = ts" using Some assms(1) by simp
    then show ?thesis using c r assms True stop_not_regressed_refl
      by (auto simp: AList.update_conv' AList.delete_conv' split: if_splits)
  next
    case False
    then show ?thesis using c assms stop_not_regressed_refl
      by (auto simp: AList.update_conv' AList.delete_conv' split: if_splits)
  qed
qed

lemma run_untracked:
  "map_of (trailing_stops m) pid = None \<Longrightarrow>
   map_of (trailing_stops (run_price_updates m updates)) pid = None"
proof (induction updates arbitrary: m)
  case Nil
  then show ?case by (simp add: run_price_updates_def)
next
  case (Cons u us)
  obtain now p price where u: "u = (now, p, price)" by (cases u)
  have "map_of (trailing_stops (snd (update_price m now p price))) pid = None"
    using update_price_untracked[OF Cons.prems] .
  from Cons.IH[OF this] show ?case by (simp add: run_price_updates_def u)
qed

lemma run_not_regressed:
  "map_of (trailing_stops m) pid = Some ts \<Longrightarrow>
   map_of (trailing_stops (run_price_updates m updates)) pid = Some ts' \<Longrightarrow>
   stop_not_regressed ts ts'"
proof (induction updates arbitrary: m ts)
  case Nil
  then show ?case by (simp add: run_price_updates_def stop_not_regressed_refl)
next
  case (Cons u us)
  obtain now p price where u: "u = (now, p, price)" by (cases u)
  let ?m1 = "snd (update_price m now p price)"
  have fin: "map_of (trailing_stops (run_price_updates ?m1 us)) pid = Some ts'"
    using Cons.prems(2) by (simp add: run_price_updates_def u)
  show ?case
  proof (cases "map_of (trailing_stops ?m1) pid")
    case None
    then show ?thesis using run_untracked[OF None, of us] fin by simp
  next
    case (Some ts1)
    have "stop_not_regressed ts ts1" using update_price_step[OF Cons.prems(1) Some] .
    moreover have "stop_not_regressed ts1 ts'" using Cons.IH[OF Some fin] .
    ultimately show ?thesis using stop_not_regressed_trans by blast
  qed
qed

lemma run_price_updates_append:
  "run_price_updates m (us1 @ us2) = run_price_updates (run_price_updates m us1) us2"
  by (simp add: run_price_updates_def)

text \<open>
  C8. For every tracked trailing stop and every sequence of price updates, the stop price
  never regresses: between any two points of the sequence at which the position is
  tracked, the side is unchanged, a long (BUY) stop has not decreased and a short (SELL)
  stop has not increased; and a single call of \<open>_adjust_trailing_stop\<close> never moves the
  stop the wrong way.
\<close>

theorem trailing_stop_never_regresses:
  assumes "map_of (trailing_stops (run_price_updates m updates1)) position_id = Some before"
      and "map_of (trailing_stops (run_price_updates m (updates1 @ updates2))) position_id
             = Some after"
  shows "ts_side after = ts_side before
    \<and> (ts_side before = BUY \<longrightarrow> current_stop_price before \<le> current_stop_price after)
    \<and> (ts_side before = SELL \<longrightarrow> current_stop_price after \<le> current_stop_price before)
    \<and> (\<forall>ts now price r ts'.
          adjust_trailing_stop ts now price = (r, ts')
          \<longrightarrow> ts_side ts' = ts_side ts
              \<and> (ts_side ts = BUY \<longrightarrow> current_stop_price ts \<le> current_stop_price ts')
              \<and> (ts_side ts = SELL \<longrightarrow> current_stop_price ts' \<le> current_stop_price ts))"
proof -
  have "stop_not_regressed before after"
    using run_not_regressed[OF assms(1)] assms(2) by (simp add: run_price_updates_append)
  then have a: "ts_side after = ts_side before
    \<and> (ts_side before = BUY \<longrightarrow> current_stop_price before \<le> current_stop_price after)
    \<and> (ts_side before = SELL \<longrightarrow> current_stop_price after \<le> current_stop_price before)"
    by (auto simp: stop_not_regressed_def split: if_splits)
  have b: "\<forall>ts now price r ts'.
          adjust_trailing_stop ts now price = (r, ts')
          \<longrightarrow> ts_side ts' = ts_side ts
              \<and> (ts_side ts = BUY \<longrightarrow> current_stop_price ts \<le> current_stop_price ts')
              \<and> (ts_side ts = SELL \<longrightarrow> current_stop_price ts' \<le> current_stop_price ts)"
    using adjust_not_regressed by (auto simp: stop_not_regressed_def split: if_splits)
  show ?thesis using a b by blast
qed

lemma long_stop_start:
  "map_option (\<lambda>ts. (ts_side ts, current_stop_price ts))
     (map_of (trailing_stops (run_price_updates long_stop_manager [])) ''p1'') = Some (BUY, 98)"
  by (simp add: run_price_updates_def long_stop_manager_def add_position_def
        default_trailing_config_def Let_def)

lemma long_stop_path:
  "map_option (\<lambda>ts. (ts_side ts, current_stop_price ts))
     (map_of (trailing_stops (run_price_updates long_stop_manager ([] @ price_path))) ''p1'')
   = Some (BUY, 2548 / 25)"
  by (simp add: run_price_updates_def price_path_def long_stop_manager_def add_position_def
        default_trailing_config_def update_price_def profit_of_def decimal_div_def
        note_profit_def activate_def track_extremes_def adjust_and_check_def
        adjust_trailing_stop_def calculate_new_stop_def check_stop_triggered_def
        store_stop_def aapl_def Let_def)

theorem trailing_stop_never_regresses_witness:
  "map_option (\<lambda>ts. (ts_side ts, current_stop_price ts))
     (map_of (trailing_stops (run_price_updates long_stop_manager [])) ''p1'') = Some (BUY, 98)
   \<and> map_option (\<lambda>ts. (ts_side ts, current_stop_price ts))
       (map_of (trailing_stops (run_price_updates long_stop_manager ([] @ price_path))) ''p1'')
      = Some (BUY, 2548 / 25)
   \<and> (98 :: rat) \<le> 2548 / 25"
proof -
  obtain before where b: "map_of (trailing_stops (run_price_updates long_stop_manager [])) ''p1''
                            = Some before"
    and bv: "ts_side before = BUY" "current_stop_price before = 98"
    using long_stop_start by auto
  obtain after where a:
      "map_of (trailing_stops (run_price_updates long_stop_manager ([] @ price_path))) ''p1''
         = Some after"
    and av: "ts_side after = BUY" "current_stop_price after = 2548 / 25"
    using long_stop_path by auto
  have "current_stop_price before \<le> current_stop_price after"
    using trailing_stop_never_regresses[OF b a] bv by blast
  then show ?thesis using long_stop_start long_stop_path bv av by simp
qed

section \<open>The risk gate: market orders\<close>






section \<open>The tick record: serialize, then deserialize\<close>

text \<open>
  The doubles on the way of the timestamp 1113726542.646319: the microsecond fraction, the
  POSIX value, the product with \<open>1_000_000\<close>, and on the way back the quotient and the
  fraction times \<open>1e6\<close>.
\<close>

lemma odd_tick_exponent_1: "binary_exponent (646319 / 1000000) = - 1"
  by (simp add: binary_exponent.simps)

lemma odd_tick_fl_1: "fl (646319 / 1000000) = 5821524015124943 / 9007199254740992"
  by (simp add: fl_def odd_tick_exponent_1 pow2_def round_half_even_def Let_def floor_numeral_div)

lemma odd_tick_exponent_2: "binary_exponent (10031556884909186140934607 / 9007199254740992) = 30"
  by (simp add: binary_exponent.simps)

lemma odd_tick_fl_2: "fl (10031556884909186140934607 / 9007199254740992) = 2335653846363813 / 2097152"
  by (simp add: fl_def odd_tick_exponent_2 pow2_def round_half_even_def Let_def floor_numeral_div)

lemma odd_tick_exponent_3: "binary_exponent (36494591349434578125 / 32768) = 49"
  by (simp add: binary_exponent.simps)

lemma odd_tick_fl_3: "fl (36494591349434578125 / 32768) = 8909812341170551 / 8"
  by (simp add: fl_def odd_tick_exponent_3 pow2_def round_half_even_def Let_def floor_numeral_div)

lemma odd_tick_exponent_4: "binary_exponent (556863271323159 / 500000) = 30"
  by (simp add: binary_exponent.simps)

lemma odd_tick_fl_4: "fl (556863271323159 / 500000) = 2335653846363811 / 2097152"
  by (simp add: fl_def odd_tick_exponent_4 pow2_def round_half_even_def Let_def floor_numeral_div)

lemma odd_tick_exponent_5: "binary_exponent (21178546875 / 32768) = 19"
  by (simp add: binary_exponent.simps)

lemma odd_tick_fl_5: "fl (21178546875 / 32768) = 21178546875 / 32768"
  by (simp add: fl_def odd_tick_exponent_5 pow2_def round_half_even_def Let_def floor_numeral_div)

lemma odd_tick_timestamp:
  "datetime_timestamp (1113726542646319 / 1000000) = 2335653846363813 / 2097152"
  by (simp add: datetime_timestamp_def Let_def floor_numeral_div odd_tick_fl_1 odd_tick_fl_2)

lemma serialize_keeps_price_quantity_side:
  assumes "serialize_tick tick = Inr data"
  shows "t_price (deserialize_tick data name) = t_price tick
         \<and> t_quantity (deserialize_tick data name) = t_quantity tick
         \<and> (t_side tick = ''BUY'' \<or> t_side tick = ''SELL''
            \<longrightarrow> t_side (deserialize_tick data name) = t_side tick)"
  using assms
  by (auto simp: serialize_tick_def deserialize_tick_def Let_def split: if_splits)

text \<open>
  C9 on the code. The tick stamped 1113726542.646319 is serialized with the microsecond
  count 1113726542646318: the double nearest to the POSIX value, times \<open>1_000_000\<close>, is
  1113726542646318.875 and \<open>int\<close> truncates it. Deserializing the record gives back price,
  quantity and side, and a timestamp one microsecond earlier than the tick's.
\<close>

theorem tick_round_trip_loses_a_microsecond:
  "t_timestamp odd_tick = 1113726542646319 / 1000000
   \<and> fl (datetime_timestamp (t_timestamp odd_tick) * 1000000) = 8909812341170551 / 8
   \<and> serialize_tick odd_tick = Inr (1113726542646318, 601 / 4, 10, 0)
   \<and> deserialize_tick (1113726542646318, 601 / 4, 10, 0) ''AAPL''
       = odd_tick\<lparr>t_timestamp := 1113726542646318 / 1000000\<rparr>
   \<and> deserialize_tick (1113726542646318, 601 / 4, 10, 0) ''AAPL'' \<noteq> odd_tick"
proof -
  have a: "t_timestamp odd_tick = 1113726542646319 / 1000000" by (simp add: odd_tick_def)
  have b: "fl (datetime_timestamp (t_timestamp odd_tick) * 1000000) = 8909812341170551 / 8"
    by (simp add: a odd_tick_timestamp odd_tick_fl_3)
  have c: "serialize_tick odd_tick = Inr (1113726542646318, 601 / 4, 10, 0)"
    by (simp add: serialize_tick_def odd_tick_def odd_tick_timestamp odd_tick_fl_3 py_int_def
          Let_def floor_numeral_div)
  have d: "deserialize_tick (1113726542646318, 601 / 4, 10, 0) ''AAPL''
       = odd_tick\<lparr>t_timestamp := 1113726542646318 / 1000000\<rparr>"
    by (simp add: deserialize_tick_def odd_tick_def datetime_fromtimestamp_def py_int_def
          odd_tick_fl_4 odd_tick_fl_5 round_half_even_def Let_def floor_numeral_div)
  have "t_timestamp (odd_tick\<lparr>t_timestamp := 1113726542646318 / 1000000\<rparr>)
          \<noteq> t_timestamp odd_tick"
    by (simp add: a)
  then have e: "odd_tick\<lparr>t_timestamp := 1113726542646318 / 1000000\<rparr> \<noteq> odd_tick"
    by metis
  show ?thesis using a b c d e by simp
qed

section \<open>OHLCV bars\<close>

lemma query_ohlcv_vwap:
  "query_ohlcv parse name ticks interval = Inr bars \<Longrightarrow> b \<in> set bars \<Longrightarrow>
   bar_vwap b = (bar_open b + bar_high b + bar_low b + bar_close b) / 4"
  by (auto simp: query_ohlcv_def set_vwap_def
           split: list.splits sum.splits prod.splits option.splits)

text \<open>
  C2 on the code. For two trades in one one-minute bar, 1 at 100 and 3 at 200,
  \<open>query_ohlcv\<close> returns one bar at the floored timestamp with open 100, high 200, low 100,
  close 200, volume 4 and \<open>vwap\<close> 150 = (100 + 200 + 100 + 200) / 4, while the size-weighted
  mean trade price of the two trades is 175.
\<close>

theorem query_ohlcv_vwap_is_ohlc_mean:
  "query_ohlcv int_of_1 ''AAPL'' two_ticks ''1m'' =
     Inr [\<lparr>bar_symbol = ''AAPL'', bar_timestamp = 0, bar_open = 100, bar_high = 200,
           bar_low = 100, bar_close = 200, bar_volume = 4, bar_vwap = 150, bar_num_trades = 2\<rparr>]
   \<and> size_weighted_mean_price two_ticks = 175
   \<and> floor_timestamp 1 60 = Inr 0"
proof -
  have fl0: "\<lfloor>(1::rat) / 60\<rfloor> = 0" by (simp add: floor_eq_iff)
  show ?thesis
    by (simp add: query_ohlcv_def two_ticks_def int_of_1_def parse_interval_def
          floor_timestamp_def new_bar_def extend_bar_def set_vwap_def
          size_weighted_mean_price_def fl0)
qed

section \<open>Fill accumulation\<close>

text \<open>
  The tick-driven engine of \<open>backtest_engine.py\<close> keeps the invariant: every fill is
  positive and at most the remaining quantity, and the running mean is the size-weighted
  mean of the fills so far.
\<close>

lemma fill_order_step:
  assumes "fill_order cfg s order tick = Inr (order', fo)"
      and "fills_consistent order fs"
  shows "o_quantity order' = o_quantity order \<and> o_symbol order' = o_symbol order
         \<and> o_filled_quantity order \<le> o_filled_quantity order'
         \<and> (case fo of
               None \<Rightarrow> order' = order
             | Some fill \<Rightarrow> 0 < f_quantity fill
                  \<and> fills_consistent order' (fs @ [(f_price fill, f_quantity fill)]))"
proof -
  obtain fp fq where sf: "simulate_fill s order tick = Inr (fp, fq)"
    using assms(1) by (auto simp: fill_order_def split: sum.splits)
  show ?thesis
  proof (cases "fq > 0")
    case False
    then show ?thesis using assms(1) sf by (auto simp: fill_order_def)
  next
    case True
    have le: "fq \<le> remaining_quantity order"
      using sf True by (auto simp: simulate_fill_def split: if_splits option.splits)
    have pos: "o_filled_quantity order + fq > 0"
      using True assms(2) by (simp add: fills_consistent_def)
    then have ne: "o_filled_quantity order + fq \<noteq> 0" by simp
    have o': "order' = order\<lparr>o_filled_quantity := o_filled_quantity order + fq,
                 o_average_fill_price := (o_average_fill_price order * o_filled_quantity order + fp * fq)
                     / (o_filled_quantity order + fq),
                 o_status := (if o_filled_quantity order + fq \<ge> o_quantity order then FILLED else PARTIAL_FILL)\<rparr>"
      and fo: "\<exists>fill. fo = Some fill \<and> f_price fill = fp \<and> f_quantity fill = fq"
      using assms(1) sf True ne by (auto simp: fill_order_def apply_fill_def Let_def)
    show ?thesis
      using o' fo True le pos ne assms(2)
      by (auto simp: fills_consistent_def remaining_quantity_def)
  qed
qed

lemma replay_order_consistent:
  assumes "replay_order cfg slippage_at order ticks = Inr (order', fills)"
      and "fills_consistent order fs"
  shows "fills_consistent order' (fs @ map (\<lambda>f. (f_price f, f_quantity f)) fills)
         \<and> o_filled_quantity order \<le> o_filled_quantity order'
         \<and> o_quantity order' = o_quantity order"
  using assms
proof (induction ticks arbitrary: order fs fills)
  case Nil
  then show ?case by simp
next
  case (Cons tick ticks)
  show ?case
  proof (cases "o_symbol order \<noteq> t_symbol tick")
    case True
    then show ?thesis using Cons.IH[of order fills fs] Cons.prems by simp
  next
    case False
    then obtain o1 fo where fo: "fill_order cfg (slippage_at tick) order tick = Inr (o1, fo)"
      using Cons.prems(1) by (auto split: sum.splits)
    note st = fill_order_step[OF fo Cons.prems(2)]
    show ?thesis
    proof (cases fo)
      case None
      then have "o1 = order" using st by simp
      then show ?thesis using Cons.IH[of order fills fs] Cons.prems False fo None by simp
    next
      case (Some fill)
      then have c1: "fills_consistent o1 (fs @ [(f_price fill, f_quantity fill)])" using st by simp
      show ?thesis
      proof (cases "o_status o1 = FILLED")
        case True
        then have "order' = o1" "fills = [fill]" using Cons.prems(1) False fo Some by simp_all
        then show ?thesis using c1 st by simp
      next
        case nf: False
        then obtain fills' where r: "replay_order cfg slippage_at o1 ticks = Inr (order', fills')"
            and f: "fills = fill # fills'"
          using Cons.prems(1) False fo Some by (auto split: sum.splits)
        show ?thesis using Cons.IH[OF r c1] f st by simp
      qed
    qed
  qed
qed

lemma consistent_mean:
  "fills_consistent order fills \<Longrightarrow> fills \<noteq> [] \<Longrightarrow> o_filled_quantity order > 0 \<Longrightarrow>
   o_average_fill_price order = size_weighted_mean fills"
  by (auto simp: fills_consistent_def size_weighted_mean_def field_simps)

lemma first_execution_eq:
  "execution_summary first_execution = Inr (False, 40, 100, PARTIALLY_FILLED, [(100, 40)])"
  by (simp add: first_execution_def execution_summary_def execute_order_def thin_engine_def
        big_order_def aapl_def nasdaq_def thin_snapshot_def check_liquidity_def
        get_execution_price_def snapshot_mid_price_def update_position_def dict_get_def Let_def)

lemma order_after_first:
  "order_after first_execution =
     big_order\<lparr>co_filled_quantity := 40, co_avg_fill_price := 100,
               co_status := PARTIALLY_FILLED\<rparr>"
  by (simp add: first_execution_def order_after_def execute_order_def thin_engine_def
        big_order_def aapl_def nasdaq_def thin_snapshot_def check_liquidity_def
        get_execution_price_def snapshot_mid_price_def update_position_def dict_get_def Let_def)

lemma engine_after_first:
  "bt_config (engine_after first_execution) = bt_config thin_engine
   \<and> bt_order_books (engine_after first_execution) = bt_order_books thin_engine
   \<and> bt_market_prices (engine_after first_execution) = bt_market_prices thin_engine
   \<and> map (\<lambda>f. (cf_price f, cf_quantity f)) (bt_fills (engine_after first_execution))
       = [(100, 40)]"
  by (simp add: first_execution_def engine_after_def execute_order_def thin_engine_def
        big_order_def aapl_def nasdaq_def thin_snapshot_def check_liquidity_def
        get_execution_price_def snapshot_mid_price_def update_position_def dict_get_def Let_def)

text \<open>
  C1 on the code. \<open>_execute_order\<close> of \<open>engine.py\<close> on a market BUY of 100 against a book
  showing 40: a first partial fill of 40 at 100 leaves the order pending; a second partial
  fill of 40 at 110 leaves \<open>avg_fill_price\<close> at 110, the last execution price, where the
  size-weighted mean of the two fills is 105; and when the second call fills in full it
  adds the whole order quantity again, leaving \<open>filled_quantity\<close> at 140 for a quantity of
  100.
\<close>

theorem execute_order_breaks_fill_invariant:
  "co_quantity big_order = 100
   \<and> execution_summary first_execution = Inr (False, 40, 100, PARTIALLY_FILLED, [(100, 40)])
   \<and> execution_summary
       (execute_order (engine_after first_execution) (order_after first_execution) 0 0 10)
       = Inr (False, 80, 110, PARTIALLY_FILLED, [(100, 40), (110, 40)])
   \<and> size_weighted_mean [(100, 40), (110, 40)] = 105
   \<and> execution_summary
       (execute_order (engine_after first_execution) (order_after first_execution) (1 / 2) 0 10)
       = Inr (True, 140, 110, CORE_FILLED, [(100, 40), (110, 100)])"
proof -
  have q: "co_quantity big_order = 100" by (simp add: big_order_def)
  have m: "size_weighted_mean [(100, 40), (110, 40)] = 105"
    by (simp add: size_weighted_mean_def)
  have e: "bt_config (engine_after first_execution) = bt_config thin_engine"
          "bt_order_books (engine_after first_execution) = bt_order_books thin_engine"
          "bt_market_prices (engine_after first_execution) = bt_market_prices thin_engine"
          "map (\<lambda>f. (cf_price f, cf_quantity f)) (bt_fills (engine_after first_execution))
             = [(100, 40)]"
    using engine_after_first by simp_all
  have s2: "execution_summary
       (execute_order (engine_after first_execution) (order_after first_execution) 0 0 10)
       = Inr (False, 80, 110, PARTIALLY_FILLED, [(100, 40), (110, 40)])"
    by (simp add: execution_summary_def execute_order_def order_after_first e thin_engine_def
          big_order_def aapl_def nasdaq_def thin_snapshot_def check_liquidity_def
          get_execution_price_def snapshot_mid_price_def update_position_def Let_def)
  have s3: "execution_summary
       (execute_order (engine_after first_execution) (order_after first_execution) (1 / 2) 0 10)
       = Inr (True, 140, 110, CORE_FILLED, [(100, 40), (110, 100)])"
    by (simp add: execution_summary_def execute_order_def order_after_first e thin_engine_def
          big_order_def aapl_def nasdaq_def thin_snapshot_def check_liquidity_def
          get_execution_price_def snapshot_mid_price_def update_position_def Let_def)
  show ?thesis using q first_execution_eq s2 m s3 by simp
qed

end
